theory Spec2Isabelle
  imports Complex_Main "HOL-Library.Sublist"
begin

unbundle bit_operations_syntax

section \<open>Values shared by all components\<close>

text \<open>
  Python exceptions are values: a function that may raise returns \<open>py_error + 'a\<close>,
  with \<open>Inl\<close> the exception. A Python \<open>Optional\<close> result is an \<open>option\<close>.
  A Python float is the real number it stands for. The feature sums, the budget products
  and the divisions are computed exactly; the subtraction of \<open>record_mistake\<close>, whose
  result is compared with thresholds, is rounded as the machine rounds it.
\<close>

datatype py_error = KeyError | AttributeError | IndexError | ValueError | EngineError

definition bind_result :: "py_error + 'a \<Rightarrow> ('a \<Rightarrow> py_error + 'b) \<Rightarrow> py_error + 'b" where
  "bind_result r f = (case r of Inl e \<Rightarrow> Inl e | Inr x \<Rightarrow> f x)"

text \<open>\<open>a and b\<close>, \<open>a or b\<close> of Python: the right operand is only evaluated (and can only
  raise) when the left one does not decide the result.\<close>

definition and_also :: "py_error + bool \<Rightarrow> py_error + bool \<Rightarrow> py_error + bool" where
  "and_also a b = (case a of Inl e \<Rightarrow> Inl e | Inr x \<Rightarrow> if x then b else Inr False)"

definition or_else :: "py_error + bool \<Rightarrow> py_error + bool \<Rightarrow> py_error + bool" where
  "or_else a b = (case a of Inl e \<Rightarrow> Inl e | Inr x \<Rightarrow> if x then Inr True else b)"

subsection \<open>Double-precision rounding\<close>

text \<open>
  IEEE 754 binary64, round to nearest, ties to even: a real \<open>x\<close> with
  \<open>2 ^ e \<le> \<bar>x\<bar> < 2 ^ (e + 1)\<close> is rounded to a multiple of \<open>2 ^ (e - 52)\<close>, and below
  \<open>2 ^ - 1022\<close> to a multiple of \<open>2 ^ - 1074\<close>. \<open>binary_exponent\<close> finds \<open>e\<close> by halving
  or doubling, with fuel beyond the exponent range. Overflow to infinity is left out
  (evaluations are centipawn scores divided by 100). \<open>float_sub x y\<close> is Python's
  \<open>x - y\<close> on two floats: the exact difference, rounded.
\<close>

fun binary_exponent :: "nat \<Rightarrow> real \<Rightarrow> int" where
  "binary_exponent 0 a = 0"
| "binary_exponent (Suc fuel) a =
     (if 2 \<le> a then binary_exponent fuel (a / 2) + 1
      else if a < 1 then binary_exponent fuel (a * 2) - 1
      else 0)"

definition pow2 :: "int \<Rightarrow> real" where
  "pow2 i = (if 0 \<le> i then 2 ^ nat i else 1 / 2 ^ nat (- i))"

definition round_half_even :: "real \<Rightarrow> int" where
  "round_half_even q =
     (let f = \<lfloor>q\<rfloor>; r = q - of_int f
      in if r < 1 / 2 then f else if 1 / 2 < r then f + 1 else if even f then f else f + 1)"

definition double_round :: "real \<Rightarrow> real" where
  "double_round x =
     (if x = 0 then 0
      else
        let a = \<bar>x\<bar>;
            e = max (binary_exponent 2200 a) (- 1022);
            ulp = pow2 (e - 52)
        in sgn x * (ulp * of_int (round_half_even (a / ulp))))"

definition float_sub :: "real \<Rightarrow> real \<Rightarrow> real" where
  "float_sub x y = double_round (x - y)"

section \<open>The board, as the chess library shows it\<close>

datatype piece_type = PAWN | KNIGHT | BISHOP | ROOK | QUEEN | KING

datatype color = WHITE | BLACK

record piece =
  piece_type :: piece_type
  color :: color

text \<open>A move (\<open>chess.Move\<close>): origin and target square, and the promotion piece if any.\<close>

datatype move = Move int int "piece_type option"

text \<open>
  \<open>chess.Board\<close>, by what the code reads from it. Squares are the integers 0..63
  (\<open>A1 = 0\<close>, \<open>H8 = 63\<close>). \<open>move_stack_len\<close> is \<open>len(board.move_stack)\<close>;
  \<open>castling\<close> is the castling field of the FEN; \<open>ep_square\<close> is the en-passant target
  that \<open>fen()\<close> writes. \<open>san\<close> and \<open>parse_san\<close> are the library's conversions in this
  position (\<open>parse_san\<close> is \<open>None\<close> where the library raises).
\<close>

record board =
  piece_at :: "int \<Rightarrow> piece option"
  turn :: color
  castling :: string
  ep_square :: "int option"
  halfmove_clock :: nat
  fullmove_number :: nat
  move_stack_len :: nat
  legal_moves :: "move list"
  is_check :: bool
  is_game_over :: bool
  san :: "move \<Rightarrow> string"
  parse_san :: "string \<Rightarrow> move option"

definition SQUARES :: "int list" where
  "SQUARES = [0..63]"

definition square_file :: "int \<Rightarrow> int" where
  "square_file sq = sq mod 8"

definition square_rank :: "int \<Rightarrow> int" where
  "square_rank sq = sq div 8"

definition square :: "int \<Rightarrow> int \<Rightarrow> int" where
  "square file_index rank_index = rank_index * 8 + file_index"

text \<open>\<open>len(board.piece_map())\<close>: the number of occupied squares.\<close>

definition piece_map_len :: "board \<Rightarrow> nat" where
  "piece_map_len b = length (filter (\<lambda>sq. piece_at b sq \<noteq> None) SQUARES)"

text \<open>\<open>board.pieces(piece_type, color)\<close>: the squares holding such a piece, ascending.\<close>

definition pieces :: "board \<Rightarrow> piece_type \<Rightarrow> color \<Rightarrow> int list" where
  "pieces b pt c =
     filter (\<lambda>sq. piece_at b sq = Some \<lparr>piece_type = pt, color = c\<rparr>) SQUARES"

text \<open>\<open>board.king(color)\<close>: the square of the king of that colour, \<open>None\<close> without one.\<close>

definition king :: "board \<Rightarrow> color \<Rightarrow> int option" where
  "king b c = (case pieces b KING c of [] \<Rightarrow> None | ks \<Rightarrow> Some (last ks))"

section \<open>The position hash\<close>

text \<open>Python's \<open>str\<close> of a non-negative integer: its decimal digits.\<close>

definition digit_char :: "nat \<Rightarrow> char" where
  "digit_char d = ''0123456789'' ! d"

fun str_nat :: "nat \<Rightarrow> string" where
  "str_nat n = (if n < 10 then [digit_char n] else str_nat (n div 10) @ [digit_char (n mod 10)])"

declare str_nat.simps [simp del]

definition symbol :: "piece \<Rightarrow> char" where
  "symbol p =
     (case (color p, piece_type p) of
        (WHITE, PAWN) \<Rightarrow> CHR ''P'' | (WHITE, KNIGHT) \<Rightarrow> CHR ''N''
      | (WHITE, BISHOP) \<Rightarrow> CHR ''B'' | (WHITE, ROOK) \<Rightarrow> CHR ''R''
      | (WHITE, QUEEN) \<Rightarrow> CHR ''Q'' | (WHITE, KING) \<Rightarrow> CHR ''K''
      | (BLACK, PAWN) \<Rightarrow> CHR ''p'' | (BLACK, KNIGHT) \<Rightarrow> CHR ''n''
      | (BLACK, BISHOP) \<Rightarrow> CHR ''b'' | (BLACK, ROOK) \<Rightarrow> CHR ''r''
      | (BLACK, QUEEN) \<Rightarrow> CHR ''q'' | (BLACK, KING) \<Rightarrow> CHR ''k'')"

text \<open>
  \<open>board.fen()\<close> of the chess library: the piece placement rank 8 first, runs of
  empty squares as their length, then side to move, castling field, en-passant square,
  halfmove clock and fullmove number, separated by blanks.
\<close>

fun rank_fen :: "piece option list \<Rightarrow> nat \<Rightarrow> string" where
  "rank_fen [] n_empty = (if n_empty > 0 then str_nat n_empty else [])"
| "rank_fen (None # ps) n_empty = rank_fen ps (Suc n_empty)"
| "rank_fen (Some p # ps) n_empty =
     (if n_empty > 0 then str_nat n_empty else []) @ [symbol p] @ rank_fen ps 0"

fun join :: "string \<Rightarrow> string list \<Rightarrow> string" where
  "join sep [] = []"
| "join sep [x] = x"
| "join sep (x # y # ys) = x @ sep @ join sep (y # ys)"

definition board_fen :: "board \<Rightarrow> string" where
  "board_fen b =
     join ''/'' (map (\<lambda>r. rank_fen (map (\<lambda>f. piece_at b (square f r)) [0..7]) 0)
                     (rev [0..7]))"

definition square_name :: "int \<Rightarrow> string" where
  "square_name sq = [''abcdefgh'' ! nat (square_file sq), ''12345678'' ! nat (square_rank sq)]"

definition fen :: "board \<Rightarrow> string" where
  "fen b =
     join '' ''
       [board_fen b,
        (if turn b = WHITE then ''w'' else ''b''),
        castling b,
        (case ep_square b of None \<Rightarrow> ''-'' | Some sq \<Rightarrow> square_name sq),
        str_nat (halfmove_clock b),
        str_nat (fullmove_number b)]"

subsection \<open>MD5 (RFC 1321), as \<open>hashlib.md5\<close> computes it\<close>

text \<open>32-bit words are integers reduced modulo \<open>2 ^ 32\<close>.\<close>

definition md5_s :: "nat list" where
  "md5_s = [7, 12, 17, 22, 7, 12, 17, 22, 7, 12, 17, 22, 7, 12, 17, 22,
            5, 9, 14, 20, 5, 9, 14, 20, 5, 9, 14, 20, 5, 9, 14, 20,
            4, 11, 16, 23, 4, 11, 16, 23, 4, 11, 16, 23, 4, 11, 16, 23,
            6, 10, 15, 21, 6, 10, 15, 21, 6, 10, 15, 21, 6, 10, 15, 21]"

definition md5_K :: "int list" where
  "md5_K = [0xd76aa478, 0xe8c7b756, 0x242070db, 0xc1bdceee,
            0xf57c0faf, 0x4787c62a, 0xa8304613, 0xfd469501,
            0x698098d8, 0x8b44f7af, 0xffff5bb1, 0x895cd7be,
            0x6b901122, 0xfd987193, 0xa679438e, 0x49b40821,
            0xf61e2562, 0xc040b340, 0x265e5a51, 0xe9b6c7aa,
            0xd62f105d, 0x02441453, 0xd8a1e681, 0xe7d3fbc8,
            0x21e1cde6, 0xc33707d6, 0xf4d50d87, 0x455a14ed,
            0xa9e3e905, 0xfcefa3f8, 0x676f02d9, 0x8d2a4c8a,
            0xfffa3942, 0x8771f681, 0x6d9d6122, 0xfde5380c,
            0xa4beea44, 0x4bdecfa9, 0xf6bb4b60, 0xbebfbc70,
            0x289b7ec6, 0xeaa127fa, 0xd4ef3085, 0x04881d05,
            0xd9d4d039, 0xe6db99e5, 0x1fa27cf8, 0xc4ac5665,
            0xf4292244, 0x432aff97, 0xab9423a7, 0xfc93a039,
            0x655b59c3, 0x8f0ccc92, 0xffeff47d, 0x85845dd1,
            0x6fa87e4f, 0xfe2ce6e0, 0xa3014314, 0x4e0811a1,
            0xf7537e82, 0xbd3af235, 0x2ad7d2bb, 0xeb86d391]"

definition w32 :: "int \<Rightarrow> int" where
  "w32 x = x mod 4294967296"

definition not32 :: "int \<Rightarrow> int" where
  "not32 x = 4294967295 - w32 x"

definition rotl32 :: "int \<Rightarrow> nat \<Rightarrow> int" where
  "rotl32 x n = w32 (x * 2 ^ n) + w32 x div 2 ^ (32 - n)"

definition le_word :: "int list \<Rightarrow> int" where
  "le_word bs = foldr (\<lambda>b acc. b + 256 * acc) bs 0"

definition le_bytes :: "nat \<Rightarrow> int \<Rightarrow> int list" where
  "le_bytes n x = map (\<lambda>i. (x div 256 ^ i) mod 256) [0..<n]"

definition md5_pad :: "int list \<Rightarrow> int list" where
  "md5_pad msg =
     msg @ [128] @ replicate ((119 - length msg mod 64) mod 64) 0
       @ le_bytes 8 (8 * int (length msg))"

definition chunks :: "nat \<Rightarrow> 'a list \<Rightarrow> 'a list list" where
  "chunks n xs = map (\<lambda>i. take n (drop (i * n) xs)) [0..<length xs div n]"

definition md5_round ::
  "int list \<Rightarrow> int \<times> int \<times> int \<times> int \<Rightarrow> nat \<Rightarrow> int \<times> int \<times> int \<times> int" where
  "md5_round M st i = (case st of (A, B, C, D) \<Rightarrow>
     let (F, g) =
       (if i < 16 then ((B AND C) OR (not32 B AND D), i)
        else if i < 32 then ((D AND B) OR (not32 D AND C), (5 * i + 1) mod 16)
        else if i < 48 then (B XOR C XOR D, (3 * i + 5) mod 16)
        else (C XOR (B OR not32 D), (7 * i) mod 16));
       F' = w32 (F + A + md5_K ! i + M ! g)
     in (D, w32 (B + rotl32 F' (md5_s ! i)), B, C))"

definition md5_chunk ::
  "int \<times> int \<times> int \<times> int \<Rightarrow> int list \<Rightarrow> int \<times> int \<times> int \<times> int" where
  "md5_chunk st chunk =
     (let M = map le_word (chunks 4 chunk) in
      case st of (a0, b0, c0, d0) \<Rightarrow>
      case foldl (md5_round M) st [0..<64] of (A, B, C, D) \<Rightarrow>
        (w32 (a0 + A), w32 (b0 + B), w32 (c0 + C), w32 (d0 + D)))"

definition md5_digest :: "int list \<Rightarrow> int list" where
  "md5_digest msg =
     (case foldl md5_chunk (0x67452301, 0xefcdab89, 0x98badcfe, 0x10325476)
             (chunks 64 (md5_pad msg)) of
        (a, b, c, d) \<Rightarrow> le_bytes 4 a @ le_bytes 4 b @ le_bytes 4 c @ le_bytes 4 d)"

definition hexdigest :: "int list \<Rightarrow> string" where
  "hexdigest bs =
     concat (map (\<lambda>b. [''0123456789abcdef'' ! nat (b div 16),
                          ''0123456789abcdef'' ! nat (b mod 16)]) bs)"

text \<open>\<open>str.encode()\<close> on the ASCII text of a FEN: one byte per character.\<close>

definition encode :: "string \<Rightarrow> int list" where
  "encode s = map of_char s"

text \<open>\<open>hashlib.md5(board.fen().encode()).hexdigest()\<close>.\<close>

definition get_position_hash :: "board \<Rightarrow> string" where
  "get_position_hash b = hexdigest (md5_digest (encode (fen b)))"

section \<open>AdvancedPositionAnalyzer\<close>

datatype PositionType =
  OPENING | TACTICAL | STRATEGIC | ENDGAME | COMPLEX | SIMPLE | CLOSED | OPEN | CRITICAL

type_synonym features = "string \<rightharpoonup> real"

definition getitem :: "features \<Rightarrow> string \<Rightarrow> py_error + real" where
  "getitem fs k = (case fs k of None \<Rightarrow> Inl KeyError | Some v \<Rightarrow> Inr v)"

definition item_ge :: "features \<Rightarrow> string \<Rightarrow> real \<Rightarrow> py_error + bool" where
  "item_ge fs k c = bind_result (getitem fs k) (\<lambda>v. Inr (v \<ge> c))"

definition item_le :: "features \<Rightarrow> string \<Rightarrow> real \<Rightarrow> py_error + bool" where
  "item_le fs k c = bind_result (getitem fs k) (\<lambda>v. Inr (v \<le> c))"

definition analyze_piece_count :: "board \<Rightarrow> real" where
  "analyze_piece_count b = 1.0 - real (piece_map_len b) / 32.0"

text \<open>
  \<open>_is_isolated_pawn\<close> reads \<open>board.piece_at(square).color\<close>, which raises
  \<open>AttributeError\<close> on an empty square.
\<close>

definition is_isolated_pawn :: "board \<Rightarrow> int \<Rightarrow> py_error + bool" where
  "is_isolated_pawn b sq =
     (let file = square_file sq in
      case piece_at b sq of
        None \<Rightarrow> Inl AttributeError
      | Some p \<Rightarrow>
          Inr (\<not> list_ex
                 (\<lambda>adj_file. list_ex
                    (\<lambda>r. piece_at b (square adj_file r)
                           = Some \<lparr>piece_type = PAWN, color = color p\<rparr>)
                    [0..7])
                 (filter (\<lambda>adj_file. 0 \<le> adj_file \<and> adj_file \<le> 7) [file - 1, file + 1])))"

text \<open>The white and black pawn squares together, ascending, as the union of the two
  square sets iterates.\<close>

definition all_pawns :: "board \<Rightarrow> int list" where
  "all_pawns b =
     filter (\<lambda>sq. sq \<in> set (pieces b PAWN WHITE) \<or> sq \<in> set (pieces b PAWN BLACK)) SQUARES"

definition pawn_structure_step :: "board \<Rightarrow> py_error + real \<Rightarrow> int \<Rightarrow> py_error + real" where
  "pawn_structure_step b acc sq =
     bind_result acc (\<lambda>complexity.
       let file = square_file sq;
           rank = square_rank sq;
           complexity = (if 2 \<le> file \<and> file \<le> 5 \<and> 2 \<le> rank \<and> rank \<le> 5
                         then complexity + 0.1 else complexity)
       in bind_result (is_isolated_pawn b sq) (\<lambda>isolated.
            Inr (if isolated then complexity + 0.2 else complexity)))"

definition analyze_pawn_structure :: "board \<Rightarrow> py_error + real" where
  "analyze_pawn_structure b =
     bind_result (foldl (pawn_structure_step b) (Inr 0.0) (all_pawns b))
       (\<lambda>complexity. Inr (min 1.0 complexity))"

text \<open>\<open>E4 = 28\<close>, \<open>E5 = 36\<close>, \<open>D4 = 27\<close>, \<open>D5 = 35\<close>.\<close>

definition analyze_center_control :: "board \<Rightarrow> real" where
  "analyze_center_control b =
     foldl (\<lambda>control sq. if piece_at b sq \<noteq> None then control + 0.25 else control)
       0.0 [28, 36, 27, 35]"

definition analyze_development :: "board \<Rightarrow> real" where
  "analyze_development b = min 1.0 (real (move_stack_len b) / 20.0)"

text \<open>\<open>if white_king:\<close> tests the square number: it is false without a king and also
  for a king on square 0.\<close>

definition king_safety_step :: "board \<Rightarrow> color \<Rightarrow> real \<Rightarrow> real" where
  "king_safety_step b c safety =
     (case king b c of
        None \<Rightarrow> safety
      | Some k \<Rightarrow>
          if k \<noteq> 0 then
            (let file = square_file k in
             if 2 \<le> file \<and> file \<le> 5 then safety + 0.5 else safety)
          else safety)"

definition analyze_king_safety :: "board \<Rightarrow> real" where
  "analyze_king_safety b = king_safety_step b BLACK (king_safety_step b WHITE 0.0)"

definition has_type :: "board \<Rightarrow> int \<Rightarrow> piece_type list \<Rightarrow> bool" where
  "has_type b sq pts =
     (case piece_at b sq of None \<Rightarrow> False | Some p \<Rightarrow> piece_type p \<in> set pts)"

definition analyze_tactical_opportunities :: "board \<Rightarrow> real" where
  "analyze_tactical_opportunities b =
     (let opportunities = (if is_check b then 0.0 + 0.3 else 0.0);
          opportunities =
            foldl (\<lambda>acc sq. if has_type b sq [KNIGHT] then acc + 0.1 else acc)
              opportunities SQUARES;
          opportunities =
            foldl (\<lambda>acc sq. if has_type b sq [ROOK, BISHOP, QUEEN] then acc + 0.05 else acc)
              opportunities SQUARES
      in min 1.0 opportunities)"

definition analyze_complexity :: "board \<Rightarrow> real" where
  "analyze_complexity b =
     (let n_legal = length (legal_moves b);
          complexity = real n_legal / 50.0;
          piece_activity =
            foldl (\<lambda>acc sq. if piece_at b sq \<noteq> None then acc + 1 else acc) 0.0 SQUARES
      in min 1.0 ((complexity + piece_activity / 32.0) / 2.0))"

fun piece_values :: "piece_type \<Rightarrow> int" where
  "piece_values PAWN = 1"
| "piece_values KNIGHT = 3"
| "piece_values BISHOP = 3"
| "piece_values ROOK = 5"
| "piece_values QUEEN = 9"
| "piece_values KING = 0"

definition material_step :: "board \<Rightarrow> int \<times> int \<Rightarrow> int \<Rightarrow> int \<times> int" where
  "material_step b acc sq =
     (case acc of (white_material, black_material) \<Rightarrow>
      case piece_at b sq of
        None \<Rightarrow> (white_material, black_material)
      | Some p \<Rightarrow>
          let v = piece_values (piece_type p) in
          if color p = WHITE then (white_material + v, black_material)
          else (white_material, black_material + v))"

definition analyze_material_balance :: "board \<Rightarrow> real" where
  "analyze_material_balance b =
     (case foldl (material_step b) (0, 0) SQUARES of
        (white_material, black_material) \<Rightarrow>
          real_of_int \<bar>white_material - black_material\<bar> / 39.0)"

text \<open>The sixteen squares C3..F3, C4..F4, C5..F5, C6..F6.\<close>

definition center_area :: "int list" where
  "center_area = [18, 19, 20, 21, 26, 27, 28, 29, 34, 35, 36, 37, 42, 43, 44, 45]"

definition analyze_space_control :: "board \<Rightarrow> real" where
  "analyze_space_control b =
     foldl (\<lambda>control sq. if piece_at b sq \<noteq> None then control + 0.0625 else control)
       0.0 center_area"

text \<open>The loop over the ranks ahead of the pawn stops at the first square that does not
  hold a pawn of the same colour.\<close>

fun chain_scan :: "board \<Rightarrow> int \<Rightarrow> color \<Rightarrow> int list \<Rightarrow> nat \<Rightarrow> nat" where
  "chain_scan b file c [] len = len"
| "chain_scan b file c (r # rs) len =
     (if piece_at b (square file r) = Some \<lparr>piece_type = PAWN, color = c\<rparr>
      then chain_scan b file c rs (len + 1) else len)"

definition get_pawn_chain_length :: "board \<Rightarrow> int \<Rightarrow> color \<Rightarrow> nat" where
  "get_pawn_chain_length b sq c =
     chain_scan b (square_file sq) c [square_rank sq + 1..7] 1"

definition analyze_pawn_chains :: "board \<Rightarrow> real" where
  "analyze_pawn_chains b =
     min 1.0
       (foldl (\<lambda>chains c.
                 foldl (\<lambda>chains sq. chains + real (get_pawn_chain_length b sq c) / 8.0)
                   chains (pieces b PAWN c))
          0.0 [WHITE, BLACK])"

definition extract_features :: "board \<Rightarrow> py_error + features" where
  "extract_features b =
     (let fs = Map.empty;
          fs = fs(''piece_count'' \<mapsto> analyze_piece_count b)
      in bind_result (analyze_pawn_structure b) (\<lambda>ps.
        let fs = fs(''pawn_structure'' \<mapsto> ps);
            fs = fs(''center_control'' \<mapsto> analyze_center_control b);
            fs = fs(''development'' \<mapsto> analyze_development b);
            fs = fs(''king_safety'' \<mapsto> analyze_king_safety b);
            fs = fs(''tactical_opportunities'' \<mapsto> analyze_tactical_opportunities b);
            fs = fs(''position_complexity'' \<mapsto> analyze_complexity b);
            fs = fs(''material_balance'' \<mapsto> analyze_material_balance b);
            fs = fs(''space_control'' \<mapsto> analyze_space_control b);
            fs = fs(''pawn_chain_structure'' \<mapsto> analyze_pawn_chains b)
        in Inr fs))"

definition classify_position :: "board \<Rightarrow> features \<Rightarrow> py_error + PositionType" where
  "classify_position b fs =
    (let move_count = move_stack_len b in
     if move_count \<le> 8 then Inr OPENING
     else bind_result (item_ge fs ''piece_count'' 0.8) (\<lambda>r2.
       if r2 then Inr ENDGAME
       else bind_result
         (and_also (item_ge fs ''pawn_structure'' 0.7)
           (and_also (item_le fs ''center_control'' 0.3)
             (item_ge fs ''position_complexity'' 0.6))) (\<lambda>r3.
       if r3 then Inr CLOSED
       else bind_result
         (or_else (item_ge fs ''tactical_opportunities'' 0.7)
           (item_ge fs ''material_balance'' 0.5)) (\<lambda>r4.
       if r4 then Inr CRITICAL
       else bind_result (item_ge fs ''tactical_opportunities'' 0.5) (\<lambda>r5.
       if r5 then Inr TACTICAL
       else bind_result
         (and_also (item_ge fs ''pawn_structure'' 0.6)
           (item_ge fs ''space_control'' 0.5)) (\<lambda>r6.
       if r6 then Inr STRATEGIC
       else bind_result (item_ge fs ''position_complexity'' 0.7) (\<lambda>r7.
       if r7 then Inr COMPLEX
       else bind_result (item_ge fs ''center_control'' 0.5) (\<lambda>r8.
       if r8 then Inr OPEN
       else Inr SIMPLE))))))))"

definition calculate_time_allocation :: "PositionType \<Rightarrow> features \<Rightarrow> py_error + real" where
  "calculate_time_allocation position_type fs =
    (let base_time = 2.0 in
     bind_result (item_ge fs ''position_complexity'' 0.7) (\<lambda>cplx.
       let base_time = (if cplx then base_time * 1.5 else base_time);
           base_time = (if position_type = CRITICAL then base_time * 2.0 else base_time);
           base_time = (if position_type = ENDGAME then base_time * 0.7 else base_time)
       in Inr base_time))"

definition calculate_depth_allocation :: "PositionType \<Rightarrow> features \<Rightarrow> py_error + int" where
  "calculate_depth_allocation position_type fs =
    (let base_depth = 20 in
     bind_result (item_ge fs ''position_complexity'' 0.7) (\<lambda>cplx.
       let base_depth = (if cplx then base_depth + 10 else base_depth);
           base_depth = (if position_type = CRITICAL then base_depth + 15 else base_depth);
           base_depth = (if position_type = ENDGAME then base_depth + 5 else base_depth)
       in Inr base_depth))"

datatype EngineType = STOCKFISH | LCZERO | CUSTOM

definition recommend_engine :: "PositionType \<Rightarrow> features \<Rightarrow> EngineType" where
  "recommend_engine position_type fs =
     (if position_type = TACTICAL then STOCKFISH
      else if position_type = STRATEGIC then LCZERO
      else if position_type = CLOSED then LCZERO
      else if position_type = CRITICAL then STOCKFISH
      else if position_type = ENDGAME then STOCKFISH
      else STOCKFISH)"

definition feature_weights :: "(string \<times> real) list" where
  "feature_weights =
     [(''piece_count'', 0.15), (''pawn_structure'', 0.20), (''center_control'', 0.15),
      (''development'', 0.10), (''king_safety'', 0.15), (''tactical_opportunities'', 0.25)]"

definition calculate_confidence :: "features \<Rightarrow> real" where
  "calculate_confidence fs =
     min 1.0
       (foldl (\<lambda>confidence (feature, w).
                 case fs feature of None \<Rightarrow> confidence | Some v \<Rightarrow> confidence + v * w)
          0.0 feature_weights)"

record PositionAnalysis =
  position_type :: PositionType
  confidence :: real
  features :: features
  recommended_engine :: EngineType
  time_allocation :: real
  depth_allocation :: int

definition analyze_position :: "board \<Rightarrow> py_error + PositionAnalysis" where
  "analyze_position b =
     bind_result (extract_features b) (\<lambda>fs.
     bind_result (classify_position b fs) (\<lambda>pt.
     let conf = calculate_confidence fs;
         eng = recommend_engine pt fs
     in bind_result (calculate_time_allocation pt fs) (\<lambda>ta.
        bind_result (calculate_depth_allocation pt fs) (\<lambda>da.
          Inr \<lparr>position_type = pt, confidence = conf, features = fs,
               recommended_engine = eng, time_allocation = ta, depth_allocation = da\<rparr>))))"

section \<open>EngineWrapper\<close>

text \<open>
  The three collaborators. A tablebase probe is \<open>None\<close> where the library raises or
  returns \<open>None\<close> (the code treats both alike). The book is the reader of the stored
  entries of a position; it and the engine's \<open>play\<close> return \<open>Inl\<close> where they raise;
  \<open>play\<close> gives the move of its result, which can be \<open>None\<close>. A field of the wrapper is \<open>None\<close> when the collaborator was not loaded (the
  attribute is falsy). \<open>push\<close> is the library's \<open>board.push\<close>: the position after a move.
\<close>

record polyglot_entry =
  move :: move
  weight :: nat

record syzygy_tablebase =
  probe_wdl :: "board \<Rightarrow> int option"
  probe_dtz :: "board \<Rightarrow> int option"

record engine_wrapper =
  engine :: "(board \<Rightarrow> real \<Rightarrow> py_error + move option) option"
  tablebase :: "syzygy_tablebase option"
  book :: "(board \<Rightarrow> py_error + polyglot_entry list) option"

text \<open>The values of \<open>config.py\<close>.\<close>

definition probe_limit :: nat where
  "probe_limit = 6"

definition max_book_moves :: nat where
  "max_book_moves = 15"

definition book_probability :: real where
  "book_probability = 0.8"

definition engine_time_limit :: real where
  "engine_time_limit = 0.5"

text \<open>
  The random draws of one call: \<open>book_draw\<close> is \<open>random.random()\<close> in \<open>_should_use_book\<close>,
  \<open>uniform_draw\<close> the \<open>random.random()\<close> behind \<open>random.uniform(0, total_weight)\<close>
  (which returns \<open>0 + (total_weight - 0) * random()\<close>), \<open>choice_draw\<close> the number from
  which \<open>random.choice\<close> takes its index.
\<close>

record draws =
  book_draw :: real
  uniform_draw :: real
  choice_draw :: nat

text \<open>The truth value of a \<open>chess.Move\<close>: false for the null move only.\<close>

fun move_bool :: "move \<Rightarrow> bool" where
  "move_bool (Move from_sq to_sq promo) = (from_sq \<noteq> 0 \<or> to_sq \<noteq> 0 \<or> promo \<noteq> None)"

definition truthy :: "move option \<Rightarrow> bool" where
  "truthy m = (case m of None \<Rightarrow> False | Some mv \<Rightarrow> move_bool mv)"

definition should_use_tablebase :: "engine_wrapper \<Rightarrow> board \<Rightarrow> bool" where
  "should_use_tablebase w b =
     (case tablebase w of None \<Rightarrow> False | Some tb \<Rightarrow> piece_map_len b \<le> probe_limit)"

text \<open>\<open>best_dtz\<close> starts at infinity, here \<open>None\<close>.\<close>

definition tablebase_step ::
  "(board \<Rightarrow> move \<Rightarrow> board) \<Rightarrow> syzygy_tablebase \<Rightarrow> board \<Rightarrow> move option \<times> int option
     \<Rightarrow> move \<Rightarrow> move option \<times> int option" where
  "tablebase_step push tb b acc m =
     (case acc of (best_move, best_dtz) \<Rightarrow>
      case probe_dtz tb (push b m) of
        None \<Rightarrow> (best_move, best_dtz)
      | Some move_dtz \<Rightarrow>
          if (case best_dtz of None \<Rightarrow> True | Some bd \<Rightarrow> \<bar>move_dtz\<bar> < \<bar>bd\<bar>)
          then (Some m, Some move_dtz) else (best_move, best_dtz))"

definition get_tablebase_move ::
  "(board \<Rightarrow> move \<Rightarrow> board) \<Rightarrow> engine_wrapper \<Rightarrow> board \<Rightarrow> move option" where
  "get_tablebase_move push w b =
     (case tablebase w of
        None \<Rightarrow> None
      | Some tb \<Rightarrow>
          (case probe_wdl tb b of
             None \<Rightarrow> None
           | Some wdl \<Rightarrow>
               (case probe_dtz tb b of
                  None \<Rightarrow> None
                | Some dtz \<Rightarrow> fst (foldl (tablebase_step push tb b) (None, None) (legal_moves b)))))"

definition should_use_book :: "engine_wrapper \<Rightarrow> board \<Rightarrow> draws \<Rightarrow> bool" where
  "should_use_book w b d =
     (case book w of
        None \<Rightarrow> False
      | Some bk \<Rightarrow> move_stack_len b < max_book_moves \<and> book_draw d < book_probability)"

fun weighted_scan :: "polyglot_entry list \<Rightarrow> real \<Rightarrow> nat \<Rightarrow> move option" where
  "weighted_scan [] r cumulative_weight = None"
| "weighted_scan (e # es) r cumulative_weight =
     (let cumulative_weight = cumulative_weight + weight e in
      if r \<le> real cumulative_weight then Some (move e)
      else weighted_scan es r cumulative_weight)"

text \<open>
  \<open>self.book.find_all(board)\<close> of the chess library, called as the code calls it, with
  the default \<open>minimum_weight = 1\<close>: the stored entries of the position in their order,
  those of a lower weight skipped.
\<close>

definition minimum_weight :: nat where
  "minimum_weight = 1"

definition find_all ::
  "(board \<Rightarrow> py_error + polyglot_entry list) \<Rightarrow> board \<Rightarrow> py_error + polyglot_entry list" where
  "find_all reader b =
     (case reader b of
        Inl e \<Rightarrow> Inl e
      | Inr stored \<Rightarrow> Inr (filter (\<lambda>entry. minimum_weight \<le> weight entry) stored))"

definition get_book_move :: "engine_wrapper \<Rightarrow> board \<Rightarrow> draws \<Rightarrow> move option" where
  "get_book_move w b d =
     (case book w of
        None \<Rightarrow> None
      | Some reader \<Rightarrow>
          (case find_all reader b of
             Inl e \<Rightarrow> None
           | Inr entries \<Rightarrow>
               if entries = [] then None
               else
                 let total_weight = sum_list (map weight entries) in
                 if total_weight = 0
                 then Some (move (entries ! (choice_draw d mod length entries)))
                 else
                   let r = 0 + (real total_weight - 0) * uniform_draw d in
                   (case weighted_scan entries r 0 of
                      Some m \<Rightarrow> Some m
                    | None \<Rightarrow> Some (move (entries ! 0)))))"

definition get_engine_move :: "engine_wrapper \<Rightarrow> board \<Rightarrow> real option \<Rightarrow> move option" where
  "get_engine_move w b time_limit =
     (case engine w of
        None \<Rightarrow> None
      | Some play \<Rightarrow>
          let time_limit = (case time_limit of None \<Rightarrow> engine_time_limit | Some t \<Rightarrow> t) in
          (case play b time_limit of Inl e \<Rightarrow> None | Inr m \<Rightarrow> m))"

text \<open>
  \<open>get_move\<close> returns the move and, as the record of its calls to the collaborators, the
  list of the sources it queried, in the order of the calls.
\<close>

datatype source = Tablebase | Book | Engine

definition get_move ::
  "(board \<Rightarrow> move \<Rightarrow> board) \<Rightarrow> engine_wrapper \<Rightarrow> board \<Rightarrow> real option \<Rightarrow> draws
     \<Rightarrow> move option \<times> source list" where
  "get_move push w b time_limit d =
     (if is_game_over b then (None, [])
      else
        let (m1, q1) =
              (if tablebase w \<noteq> None \<and> should_use_tablebase w b
               then (get_tablebase_move push w b, [Tablebase]) else (None, []))
        in if truthy m1 then (m1, q1)
        else
          let (m2, q2) =
                (if book w \<noteq> None \<and> should_use_book w b d
                 then (get_book_move w b d, q1 @ [Book]) else (None, q1))
          in if truthy m2 then (m2, q2)
          else
            let (m3, q3) =
                  (if engine w \<noteq> None
                   then (get_engine_move w b time_limit, q2 @ [Engine]) else (None, q2))
            in if truthy m3 then (m3, q3) else (None, q3))"

section \<open>DeepLearningChessSystem\<close>

text \<open>
  The in-memory caches are dictionaries; the two tables of the database the code writes
  are \<open>position_analyses_table\<close> (one row per hash: \<open>INSERT OR REPLACE\<close> on a unique
  key) and \<open>mistakes_table\<close> (rows appended). Timestamps are left out. \<open>stockfish\<close> is
  the engine's \<open>analyse\<close> with its depth, time and multipv arguments; it returns one
  info per variation, with the principal variation and the score
  (\<open>score.relative.score(mate_score=10000)\<close>, in centipawns), or \<open>Inl\<close> where it raises.
  \<open>engine_queries\<close> records the calls of \<open>analyse\<close>: the FEN of each position sent.
\<close>

record cache_entry =
  ce_fen :: string
  ce_evaluation :: real
  ce_best_moves :: "(string \<times> real) list"

record mistake =
  move_played :: string
  best_move :: string
  mistake_type :: string
  severity :: real

record mistake_row =
  row_position_hash :: string
  row_move_played :: string
  row_move_evaluation :: real
  row_best_move :: string
  row_best_evaluation :: real
  row_mistake_type :: string
  row_severity :: real

record position_analysis =
  pa_fen :: string
  pa_position_hash :: string
  pa_move_count :: nat
  pa_piece_count :: nat
  pa_pawn_structure :: string
  pa_tactical_opportunities :: real
  pa_strategic_complexity :: real
  pa_position_type :: string
  pa_evaluation :: real
  pa_best_moves :: "(string \<times> real) list"

record info =
  pv :: "move list"
  score :: int

record learning_system =
  stockfish :: "(board \<Rightarrow> nat \<Rightarrow> real \<Rightarrow> nat \<Rightarrow> py_error + info list) option"
  positions_cache :: "string \<rightharpoonup> cache_entry"
  mistakes_database :: "string \<rightharpoonup> mistake list"
  position_analyses_table :: "string \<rightharpoonup> position_analysis"
  mistakes_table :: "mistake_row list"
  engine_queries :: "string list"

definition analysis_depth :: nat where
  "analysis_depth = 25"

definition analysis_time :: real where
  "analysis_time = 10.0"

definition max_variations :: nat where
  "max_variations = 5"

text \<open>The pawn squares of each colour as text, for example \<open>w:8,9|b:48\<close>.\<close>

definition analyze_pawn_structure_text :: "board \<Rightarrow> string" where
  "analyze_pawn_structure_text b =
     join ''|''
       (map (\<lambda>c. (if c = WHITE then ''w'' else ''b'') @ '':''
                   @ join '','' (map (\<lambda>sq. str_nat (nat sq)) (pieces b PAWN c)))
          [WHITE, BLACK])"

definition calculate_tactical_opportunities :: "board \<Rightarrow> real" where
  "calculate_tactical_opportunities b =
     (let opportunities = (if is_check b then 0.0 + 0.5 else 0.0);
          opportunities =
            foldl (\<lambda>acc sq. if has_type b sq [KNIGHT] then acc + 0.1 else acc)
              opportunities SQUARES;
          opportunities =
            foldl (\<lambda>acc sq. if has_type b sq [ROOK, BISHOP, QUEEN] then acc + 0.05 else acc)
              opportunities SQUARES;
          opportunities =
            foldl (\<lambda>acc sq. if has_type b sq [ROOK, QUEEN] then acc + 0.03 else acc)
              opportunities SQUARES
      in min 1.0 opportunities)"

definition is_doubled_pawn :: "board \<Rightarrow> int \<Rightarrow> py_error + bool" where
  "is_doubled_pawn b sq =
     (let file = square_file sq in
      case piece_at b sq of
        None \<Rightarrow> Inl AttributeError
      | Some p \<Rightarrow>
          let pawn_count =
                length (filter (\<lambda>r. piece_at b (square file r)
                                       = Some \<lparr>piece_type = PAWN, color = color p\<rparr>) [0..7])
          in Inr (pawn_count > 1))"

definition is_developed_piece :: "board \<Rightarrow> int \<Rightarrow> color \<Rightarrow> bool" where
  "is_developed_piece b sq c =
     (let rank = square_rank sq in if c = WHITE then rank > 1 else rank < 6)"

definition strategic_pawn_step :: "board \<Rightarrow> py_error + real \<Rightarrow> int \<Rightarrow> py_error + real" where
  "strategic_pawn_step b acc sq =
     bind_result acc (\<lambda>complexity.
       let file = square_file sq;
           rank = square_rank sq;
           complexity = (if 2 \<le> file \<and> file \<le> 5 \<and> 2 \<le> rank \<and> rank \<le> 5
                         then complexity + 0.1 else complexity)
       in bind_result (is_isolated_pawn b sq) (\<lambda>isolated.
            let complexity = (if isolated then complexity + 0.2 else complexity) in
            bind_result (is_doubled_pawn b sq) (\<lambda>doubled.
              Inr (if doubled then complexity + 0.15 else complexity))))"

definition calculate_strategic_complexity :: "board \<Rightarrow> py_error + real" where
  "calculate_strategic_complexity b =
     bind_result
       (foldl (\<lambda>acc c. foldl (strategic_pawn_step b) acc (pieces b PAWN c))
          (Inr 0.0) [WHITE, BLACK])
       (\<lambda>complexity.
          let center_control = length (filter (\<lambda>sq. piece_at b sq \<noteq> None) [28, 36, 27, 35]);
              complexity = complexity + real center_control * 0.1;
              developed_pieces =
                foldl (\<lambda>n pt.
                         foldl (\<lambda>n c.
                                  foldl (\<lambda>n sq. if is_developed_piece b sq c then n + 1 else n)
                                    n (pieces b pt c))
                           n [WHITE, BLACK])
                  (0::nat) [KNIGHT, BISHOP];
              complexity = complexity + real developed_pieces * 0.05
          in Inr (min 1.0 complexity))"

definition classify_position_type :: "board \<Rightarrow> real \<Rightarrow> real \<Rightarrow> string" where
  "classify_position_type b tactical strategic =
     (let move_count = move_stack_len b;
          piece_count = piece_map_len b
      in if move_count \<le> 10 then ''opening''
         else if piece_count \<le> 12 then ''endgame''
         else if tactical \<ge> 0.7 then ''tactical''
         else if strategic \<ge> 0.7 then ''strategic''
         else if tactical \<ge> 0.5 then ''tactical_strategic''
         else if strategic \<ge> 0.5 then ''strategic_maneuvering''
         else ''quiet'')"

definition save_position_analysis :: "learning_system \<Rightarrow> position_analysis \<Rightarrow> learning_system" where
  "save_position_analysis st analysis =
     st\<lparr>position_analyses_table :=
          (position_analyses_table st)(pa_position_hash analysis \<mapsto> analysis)\<rparr>"

text \<open>The analysis returned when there is no engine, or the engine part raised.\<close>

definition fallback_analysis ::
  "learning_system \<Rightarrow> board \<Rightarrow> py_error + position_analysis \<times> learning_system" where
  "fallback_analysis st b =
     bind_result (calculate_strategic_complexity b) (\<lambda>sc.
       Inr (\<lparr>pa_fen = fen b,
              pa_position_hash = get_position_hash b,
              pa_move_count = move_stack_len b,
              pa_piece_count = piece_map_len b,
              pa_pawn_structure = analyze_pawn_structure_text b,
              pa_tactical_opportunities = calculate_tactical_opportunities b,
              pa_strategic_complexity = sc,
              pa_position_type = ''unknown'',
              pa_evaluation = 0.0,
              pa_best_moves = []\<rparr>, st))"

definition deep_position_analysis ::
  "learning_system \<Rightarrow> board \<Rightarrow> py_error + position_analysis \<times> learning_system" where
  "deep_position_analysis st b =
     (let position_hash = get_position_hash b in
      case positions_cache st position_hash of
        Some cached_data \<Rightarrow>
          bind_result (calculate_strategic_complexity b) (\<lambda>sc.
            Inr (\<lparr>pa_fen = fen b,
                   pa_position_hash = position_hash,
                   pa_move_count = move_stack_len b,
                   pa_piece_count = piece_map_len b,
                   pa_pawn_structure = analyze_pawn_structure_text b,
                   pa_tactical_opportunities = calculate_tactical_opportunities b,
                   pa_strategic_complexity = sc,
                   pa_position_type = classify_position_type b 0 0,
                   pa_evaluation = ce_evaluation cached_data,
                   pa_best_moves = ce_best_moves cached_data\<rparr>, st))
      | None \<Rightarrow>
          (case stockfish st of
             None \<Rightarrow> fallback_analysis st b
           | Some analyse \<Rightarrow>
               let st = st\<lparr>engine_queries := engine_queries st @ [fen b]\<rparr> in
               (case analyse b analysis_depth analysis_time max_variations of
                  Inl e \<Rightarrow> fallback_analysis st b
                | Inr result \<Rightarrow>
                    let best_moves =
                          map (\<lambda>a. (if pv a \<noteq> [] then san b (pv a ! 0) else ''N/A'',
                                     real_of_int (score a) / 100.0))
                            (take max_variations result)
                    in (case result of
                          [] \<Rightarrow> fallback_analysis st b
                        | first # others \<Rightarrow>
                            let main_evaluation = real_of_int (score first) / 100.0;
                                tactical_opportunities = calculate_tactical_opportunities b
                            in (case calculate_strategic_complexity b of
                                  Inl e \<Rightarrow> fallback_analysis st b
                                | Inr strategic_complexity \<Rightarrow>
                                    let analysis =
                                          \<lparr>pa_fen = fen b,
                                           pa_position_hash = position_hash,
                                           pa_move_count = move_stack_len b,
                                           pa_piece_count = piece_map_len b,
                                           pa_pawn_structure = analyze_pawn_structure_text b,
                                           pa_tactical_opportunities = tactical_opportunities,
                                           pa_strategic_complexity = strategic_complexity,
                                           pa_position_type =
                                             classify_position_type b tactical_opportunities
                                               strategic_complexity,
                                           pa_evaluation = main_evaluation,
                                           pa_best_moves = best_moves\<rparr>;
                                        st = st\<lparr>positions_cache :=
                                                  (positions_cache st)(position_hash \<mapsto>
                                                    \<lparr>ce_fen = fen b,
                                                     ce_evaluation = main_evaluation,
                                                     ce_best_moves = best_moves\<rparr>)\<rparr>;
                                        st = save_position_analysis st analysis
                                    in Inr (analysis, st))))))"

text \<open>
  The mistake filter of \<open>get_best_move_with_learning\<close>: the candidates whose move is not
  a recorded \<open>move_played\<close> of this hash, in their order; the candidates are replaced
  only when some remain.
\<close>

definition filter_candidates ::
  "(string \<rightharpoonup> mistake list) \<Rightarrow> string \<Rightarrow> (string \<times> real) list \<Rightarrow> (string \<times> real) list" where
  "filter_candidates mdb position_hash best_moves =
     (case mdb position_hash of
        None \<Rightarrow> best_moves
      | Some mistakes \<Rightarrow>
          let bad_moves = set (map move_played mistakes);
              filtered_moves = filter (\<lambda>(move_san, sc). move_san \<notin> bad_moves) best_moves
          in if filtered_moves \<noteq> [] then filtered_moves else best_moves)"

definition fallback_move :: "board \<Rightarrow> move option" where
  "fallback_move b = (case legal_moves b of [] \<Rightarrow> None | m # ms \<Rightarrow> Some m)"

definition get_best_move_with_learning ::
  "learning_system \<Rightarrow> board \<Rightarrow> py_error + move option \<times> learning_system" where
  "get_best_move_with_learning st b =
     (let position_hash = get_position_hash b in
      bind_result (deep_position_analysis st b) (\<lambda>(analysis, st).
        let best_moves =
              filter_candidates (mistakes_database st) position_hash (pa_best_moves analysis)
        in Inr (case best_moves of
                  [] \<Rightarrow> fallback_move b
                | (best_move_san, sc) # others \<Rightarrow>
                    (case parse_san b best_move_san of
                       Some parsed \<Rightarrow> Some parsed
                     | None \<Rightarrow> fallback_move b),
                st)))"

definition classify_mistake :: "real \<Rightarrow> string \<times> real" where
  "classify_mistake evaluation_diff =
     (if evaluation_diff > 2.0 then (''blunder'', 1.0)
      else if evaluation_diff > 1.0 then (''mistake'', 0.7)
      else if evaluation_diff > 0.5 then (''inaccuracy'', 0.4)
      else (''minor'', 0.2))"

definition record_mistake ::
  "learning_system \<Rightarrow> board \<Rightarrow> move \<Rightarrow> real \<Rightarrow> move \<Rightarrow> real \<Rightarrow> learning_system" where
  "record_mistake st b mv move_evaluation best_mv best_evaluation =
     (let position_hash = get_position_hash b;
          move_san = san b mv;
          best_move_san = san b best_mv;
          evaluation_diff = float_sub best_evaluation move_evaluation;
          (m_type, sev) = classify_mistake evaluation_diff;
          st = st\<lparr>mistakes_table := mistakes_table st @
                    [\<lparr>row_position_hash = position_hash, row_move_played = move_san,
                      row_move_evaluation = move_evaluation, row_best_move = best_move_san,
                      row_best_evaluation = best_evaluation, row_mistake_type = m_type,
                      row_severity = sev\<rparr>]\<rparr>;
          previous = (case mistakes_database st position_hash of None \<Rightarrow> [] | Some ms \<Rightarrow> ms)
      in st\<lparr>mistakes_database := (mistakes_database st)(position_hash \<mapsto>
               previous @ [\<lparr>move_played = move_san, best_move = best_move_san,
                             mistake_type = m_type, severity = sev\<rparr>])\<rparr>)"

text \<open>A move is flagged for a hash when the ledger holds a record of that hash with it
  as \<open>move_played\<close>.\<close>

definition flagged :: "(string \<rightharpoonup> mistake list) \<Rightarrow> string \<Rightarrow> string \<Rightarrow> bool" where
  "flagged mdb position_hash move_san =
     (case mdb position_hash of
        None \<Rightarrow> False
      | Some mistakes \<Rightarrow> move_san \<in> set (map move_played mistakes))"

section \<open>Concrete positions\<close>

text \<open>
  A board from its tables: the occupied squares, and the legal moves with their SAN
  text. \<open>san\<close> of a move that is not legal is left empty here (the library raises).
\<close>

definition board_of ::
  "(int \<times> piece) list \<Rightarrow> color \<Rightarrow> string \<Rightarrow> int option \<Rightarrow> nat \<Rightarrow> nat \<Rightarrow> nat
     \<Rightarrow> (move \<times> string) list \<Rightarrow> bool \<Rightarrow> bool \<Rightarrow> board" where
  "board_of placement side rights ep hm fm n_stack moves chk over =
     \<lparr>piece_at = map_of placement, turn = side, castling = rights, ep_square = ep,
      halfmove_clock = hm, fullmove_number = fm, move_stack_len = n_stack,
      legal_moves = map fst moves, is_check = chk, is_game_over = over,
      san = (\<lambda>m. case map_of moves m of Some s \<Rightarrow> s | None \<Rightarrow> []),
      parse_san = map_of (map (\<lambda>(m, s). (s, m)) moves)\<rparr>"

text \<open>
  The position after 1.Nf3 Nf6 2.e3 and after 1.e3 Nf6 2.Nf3: the same placement, Black
  to move, all castling rights, no en-passant square. The halfmove clock is 0 in the
  first order (a pawn moved last) and 2 in the second (two knight moves since the pawn
  move).
\<close>

definition e3_Nf3_placement :: "(int \<times> piece) list" where
  "e3_Nf3_placement =
     [(0, \<lparr>piece_type = ROOK, color = WHITE\<rparr>),
      (1, \<lparr>piece_type = KNIGHT, color = WHITE\<rparr>),
      (2, \<lparr>piece_type = BISHOP, color = WHITE\<rparr>),
      (3, \<lparr>piece_type = QUEEN, color = WHITE\<rparr>),
      (4, \<lparr>piece_type = KING, color = WHITE\<rparr>),
      (5, \<lparr>piece_type = BISHOP, color = WHITE\<rparr>),
      (7, \<lparr>piece_type = ROOK, color = WHITE\<rparr>),
      (8, \<lparr>piece_type = PAWN, color = WHITE\<rparr>),
      (9, \<lparr>piece_type = PAWN, color = WHITE\<rparr>),
      (10, \<lparr>piece_type = PAWN, color = WHITE\<rparr>),
      (11, \<lparr>piece_type = PAWN, color = WHITE\<rparr>),
      (13, \<lparr>piece_type = PAWN, color = WHITE\<rparr>),
      (14, \<lparr>piece_type = PAWN, color = WHITE\<rparr>),
      (15, \<lparr>piece_type = PAWN, color = WHITE\<rparr>),
      (20, \<lparr>piece_type = PAWN, color = WHITE\<rparr>),
      (21, \<lparr>piece_type = KNIGHT, color = WHITE\<rparr>),
      (45, \<lparr>piece_type = KNIGHT, color = BLACK\<rparr>),
      (48, \<lparr>piece_type = PAWN, color = BLACK\<rparr>),
      (49, \<lparr>piece_type = PAWN, color = BLACK\<rparr>),
      (50, \<lparr>piece_type = PAWN, color = BLACK\<rparr>),
      (51, \<lparr>piece_type = PAWN, color = BLACK\<rparr>),
      (52, \<lparr>piece_type = PAWN, color = BLACK\<rparr>),
      (53, \<lparr>piece_type = PAWN, color = BLACK\<rparr>),
      (54, \<lparr>piece_type = PAWN, color = BLACK\<rparr>),
      (55, \<lparr>piece_type = PAWN, color = BLACK\<rparr>),
      (56, \<lparr>piece_type = ROOK, color = BLACK\<rparr>),
      (57, \<lparr>piece_type = KNIGHT, color = BLACK\<rparr>),
      (58, \<lparr>piece_type = BISHOP, color = BLACK\<rparr>),
      (59, \<lparr>piece_type = QUEEN, color = BLACK\<rparr>),
      (60, \<lparr>piece_type = KING, color = BLACK\<rparr>),
      (61, \<lparr>piece_type = BISHOP, color = BLACK\<rparr>),
      (63, \<lparr>piece_type = ROOK, color = BLACK\<rparr>)]"

definition e3_Nf3_moves :: "(move \<times> string) list" where
  "e3_Nf3_moves =
     [(Move 45 62 None, ''Ng8''), (Move 45 30 None, ''Ng4''), (Move 45 39 None, ''Nh5''),
      (Move 45 28 None, ''Ne4''), (Move 45 35 None, ''Nd5''), (Move 48 40 None, ''a6''),
      (Move 48 32 None, ''a5''), (Move 49 41 None, ''b6''), (Move 49 33 None, ''b5''),
      (Move 50 42 None, ''c6''), (Move 50 34 None, ''c5''), (Move 51 43 None, ''d6''),
      (Move 51 35 None, ''d5''), (Move 52 44 None, ''e6''), (Move 52 36 None, ''e5''),
      (Move 54 46 None, ''g6''), (Move 54 38 None, ''g5''), (Move 55 47 None, ''h6''),
      (Move 55 39 None, ''h5''), (Move 57 42 None, ''Nc6''), (Move 57 40 None, ''Na6''),
      (Move 63 62 None, ''Rg8'')]"

definition e3_Nf3_position :: "nat \<Rightarrow> board" where
  "e3_Nf3_position hm =
     board_of e3_Nf3_placement BLACK ''KQkq'' None hm 2 3 e3_Nf3_moves False False"

text \<open>
  King and two pawns against king, White to move
  (\<open>4k3/8/8/8/8/8/3PP3/4K3 w - - 10 40\<close>), with a move stack of the given length: 0
  for a board set up from the FEN, 78 for the game played from the start.
\<close>

definition kppk_placement :: "(int \<times> piece) list" where
  "kppk_placement =
     [(4, \<lparr>piece_type = KING, color = WHITE\<rparr>),
      (11, \<lparr>piece_type = PAWN, color = WHITE\<rparr>),
      (12, \<lparr>piece_type = PAWN, color = WHITE\<rparr>),
      (60, \<lparr>piece_type = KING, color = BLACK\<rparr>)]"

definition kppk_moves :: "(move \<times> string) list" where
  "kppk_moves =
     [(Move 4 3 None, ''Kd1''), (Move 4 5 None, ''Kf1''), (Move 4 13 None, ''Kf2''),
      (Move 11 19 None, ''d3''), (Move 11 27 None, ''d4''), (Move 12 20 None, ''e3''),
      (Move 12 28 None, ''e4'')]"

definition kppk_position :: "nat \<Rightarrow> board" where
  "kppk_position n_stack =
     board_of kppk_placement WHITE ''-'' None 10 40 n_stack kppk_moves False False"

text \<open>
  Five white queens against the bare king, White to move
  (\<open>7k/8/8/8/8/8/8/1KQQQQQ1 w - - 0 60\<close>): a legal position, reached after four
  promotions.
\<close>

definition queens_placement :: "(int \<times> piece) list" where
  "queens_placement =
     [(1, \<lparr>piece_type = KING, color = WHITE\<rparr>),
      (2, \<lparr>piece_type = QUEEN, color = WHITE\<rparr>),
      (3, \<lparr>piece_type = QUEEN, color = WHITE\<rparr>),
      (4, \<lparr>piece_type = QUEEN, color = WHITE\<rparr>),
      (5, \<lparr>piece_type = QUEEN, color = WHITE\<rparr>),
      (6, \<lparr>piece_type = QUEEN, color = WHITE\<rparr>),
      (63, \<lparr>piece_type = KING, color = BLACK\<rparr>)]"

definition queens_moves :: "(move \<times> string) list" where
  "queens_moves =
     [(Move 1 0 None, ''Ka1''), (Move 1 8 None, ''Ka2''), (Move 1 9 None, ''Kb2''),
      (Move 1 10 None, ''Kc2''), (Move 2 10 None, ''Qcc2''), (Move 2 18 None, ''Qcc3+''),
      (Move 2 26 None, ''Qcc4''), (Move 2 34 None, ''Qcc5''), (Move 2 42 None, ''Qc6''),
      (Move 2 50 None, ''Qc7''), (Move 2 58 None, ''Qc8+''), (Move 2 11 None, ''Qcd2''),
      (Move 2 20 None, ''Qce3''), (Move 2 29 None, ''Qcf4''), (Move 2 38 None, ''Qcg5''),
      (Move 2 47 None, ''Qh6#''), (Move 2 9 None, ''Qb2+''), (Move 2 16 None, ''Qa3''),
      (Move 3 11 None, ''Qdd2''), (Move 3 19 None, ''Qdd3''), (Move 3 27 None, ''Qdd4+''),
      (Move 3 35 None, ''Qd5''), (Move 3 43 None, ''Qd6''), (Move 3 51 None, ''Qd7''),
      (Move 3 59 None, ''Qd8+''), (Move 3 12 None, ''Qde2''), (Move 3 21 None, ''Qdf3''),
      (Move 3 30 None, ''Qdg4''), (Move 3 39 None, ''Qh5#''), (Move 3 10 None, ''Qdc2''),
      (Move 3 17 None, ''Qb3''), (Move 3 24 None, ''Qa4''), (Move 4 12 None, ''Qee2''),
      (Move 4 20 None, ''Qee3''), (Move 4 28 None, ''Qe4''), (Move 4 36 None, ''Qe5+''),
      (Move 4 44 None, ''Qe6''), (Move 4 52 None, ''Qe7''), (Move 4 60 None, ''Qe8+''),
      (Move 4 13 None, ''Qef2''), (Move 4 22 None, ''Qeg3''), (Move 4 31 None, ''Qh4#''),
      (Move 4 11 None, ''Qed2''), (Move 4 18 None, ''Qec3+''), (Move 4 25 None, ''Qb4''),
      (Move 4 32 None, ''Qa5''), (Move 5 13 None, ''Qff2''), (Move 5 21 None, ''Qff3''),
      (Move 5 29 None, ''Qff4''), (Move 5 37 None, ''Qf5''), (Move 5 45 None, ''Qf6+''),
      (Move 5 53 None, ''Qf7''), (Move 5 61 None, ''Qf8+''), (Move 5 14 None, ''Qfg2''),
      (Move 5 23 None, ''Qh3#''), (Move 5 12 None, ''Qfe2''), (Move 5 19 None, ''Qfd3''),
      (Move 5 26 None, ''Qfc4''), (Move 5 33 None, ''Qb5''), (Move 5 40 None, ''Qa6''),
      (Move 6 7 None, ''Qh1+''), (Move 6 14 None, ''Qgg2''), (Move 6 22 None, ''Qgg3''),
      (Move 6 30 None, ''Qgg4''), (Move 6 38 None, ''Qgg5''), (Move 6 46 None, ''Qg6''),
      (Move 6 54 None, ''Qg7+''), (Move 6 62 None, ''Qg8+''), (Move 6 15 None, ''Qh2+''),
      (Move 6 13 None, ''Qgf2''), (Move 6 20 None, ''Qge3''), (Move 6 27 None, ''Qgd4+''),
      (Move 6 34 None, ''Qgc5''), (Move 6 41 None, ''Qb6''), (Move 6 48 None, ''Qa7'')]"

definition queens_position :: board where
  "queens_position =
     board_of queens_placement WHITE ''-'' None 0 60 118 queens_moves False False"

text \<open>
  Stalemate, Black to move (\<open>7k/5Q2/6K1/8/8/8/8/8 b - - 0 70\<close>): the game is over.
\<close>

definition stalemate_position :: board where
  "stalemate_position =
     board_of
       [(46, \<lparr>piece_type = KING, color = WHITE\<rparr>),
        (53, \<lparr>piece_type = QUEEN, color = WHITE\<rparr>),
        (63, \<lparr>piece_type = KING, color = BLACK\<rparr>)]
       BLACK ''-'' None 0 70 139 [] False True"

text \<open>
  King and queen against king, White to move (\<open>4k3/8/8/8/8/8/8/3QK3 w - - 0 50\<close>):
  three pieces, a win for White.
\<close>

definition kqk_moves :: "(move \<times> string) list" where
  "kqk_moves =
     [(Move 3 2 None, ''Qc1''), (Move 3 1 None, ''Qb1''), (Move 3 0 None, ''Qa1''),
      (Move 3 11 None, ''Qd2''), (Move 3 19 None, ''Qd3''), (Move 3 27 None, ''Qd4''),
      (Move 3 35 None, ''Qd5''), (Move 3 43 None, ''Qd6''), (Move 3 51 None, ''Qd7+''),
      (Move 3 59 None, ''Qd8+''), (Move 3 12 None, ''Qe2+''), (Move 3 21 None, ''Qf3''),
      (Move 3 30 None, ''Qg4''), (Move 3 39 None, ''Qh5+''), (Move 3 10 None, ''Qc2''),
      (Move 3 17 None, ''Qb3''), (Move 3 24 None, ''Qa4+''), (Move 4 11 None, ''Kd2''),
      (Move 4 12 None, ''Ke2''), (Move 4 5 None, ''Kf1''), (Move 4 13 None, ''Kf2'')]"

definition kqk_position :: board where
  "kqk_position =
     board_of
       [(3, \<lparr>piece_type = QUEEN, color = WHITE\<rparr>), (4, \<lparr>piece_type = KING, color = WHITE\<rparr>),
        (60, \<lparr>piece_type = KING, color = BLACK\<rparr>)]
       WHITE ''-'' None 0 50 98 kqk_moves False False"

section \<open>Concrete systems\<close>

text \<open>A learning system with nothing loaded and no engine.\<close>

definition empty_system :: learning_system where
  "empty_system =
     \<lparr>stockfish = None, positions_cache = Map.empty, mistakes_database = Map.empty,
      position_analyses_table = Map.empty, mistakes_table = [], engine_queries = []\<rparr>"

text \<open>Engines for the king-and-two-pawns position: one proposes e4 only, the other e4
  (0.30) ahead of d4 (0.20).\<close>

definition only_e4_engine :: "board \<Rightarrow> nat \<Rightarrow> real \<Rightarrow> nat \<Rightarrow> py_error + info list" where
  "only_e4_engine b depth time multipv = Inr [\<lparr>pv = [Move 12 28 None], score = 10\<rparr>]"

definition e4_d4_engine :: "board \<Rightarrow> nat \<Rightarrow> real \<Rightarrow> nat \<Rightarrow> py_error + info list" where
  "e4_d4_engine b depth time multipv =
     Inr [\<lparr>pv = [Move 12 28 None], score = 30\<rparr>, \<lparr>pv = [Move 11 27 None], score = 20\<rparr>]"

text \<open>A system whose ledger holds one record for that position: e4 was played, d4 was
  best.\<close>

definition flagged_e4_system ::
  "(board \<Rightarrow> nat \<Rightarrow> real \<Rightarrow> nat \<Rightarrow> py_error + info list) \<Rightarrow> learning_system" where
  "flagged_e4_system analyse =
     \<lparr>stockfish = Some analyse,
      positions_cache = Map.empty,
      mistakes_database =
        [get_position_hash (kppk_position 78) \<mapsto>
           [\<lparr>move_played = ''e4'', best_move = ''d4'', mistake_type = ''mistake'',
             severity = 0.7\<rparr>]],
      position_analyses_table = Map.empty, mistakes_table = [], engine_queries = []\<rparr>"

text \<open>A wrapper with an engine only, which always answers e4.\<close>

definition engine_only_wrapper :: engine_wrapper where
  "engine_only_wrapper =
     \<lparr>engine = Some (\<lambda>b t. Inr (Some (Move 12 28 None))), tablebase = None, book = None\<rparr>"

text \<open>A feature vector that satisfies both the Endgame rule and the Critical rule.\<close>

definition endgame_and_critical :: features where
  "endgame_and_critical =
     [''piece_count'' \<mapsto> 0.875, ''pawn_structure'' \<mapsto> 0, ''center_control'' \<mapsto> 0,
      ''position_complexity'' \<mapsto> 0.1, ''tactical_opportunities'' \<mapsto> 0.8,
      ''material_balance'' \<mapsto> 0.6, ''space_control'' \<mapsto> 0]"

text \<open>
  A stand-in for \<open>board.push\<close>: the piece changes square, the side to move and the
  move stack change; the other fields are left as they are.
\<close>

definition relocate :: "board \<Rightarrow> move \<Rightarrow> board" where
  "relocate b m =
     (case m of Move from_sq to_sq promo \<Rightarrow>
        b\<lparr>piece_at := (piece_at b)(to_sq := piece_at b from_sq, from_sq := None),
          turn := (if turn b = WHITE then BLACK else WHITE),
          move_stack_len := Suc (move_stack_len b)\<rparr>)"

text \<open>A tablebase covering up to three pieces, which reports a win, with a distance of 9
  for White to move and of 8 for Black to move.\<close>

definition stub_tablebase :: syzygy_tablebase where
  "stub_tablebase =
     \<lparr>probe_wdl = (\<lambda>b. if piece_map_len b \<le> 3 then Some 2 else None),
      probe_dtz = (\<lambda>b. if piece_map_len b \<le> 3
                         then Some (if turn b = WHITE then 9 else - 8) else None)\<rparr>"

text \<open>A wrapper with all three collaborators; its book stores e6 with weight 0, c6 with
  weight 3 and d5 with weight 1.\<close>

definition full_wrapper :: engine_wrapper where
  "full_wrapper =
     \<lparr>engine = Some (\<lambda>b t. Inr (Some (Move 12 28 None))),
      tablebase = Some stub_tablebase,
      book = Some (\<lambda>b. Inr [\<lparr>move = Move 52 44 None, weight = 0\<rparr>,
                               \<lparr>move = Move 50 42 None, weight = 3\<rparr>,
                               \<lparr>move = Move 51 35 None, weight = 1\<rparr>])\<rparr>"

text \<open>A system that holds a cached analysis of the king-and-two-pawns position.\<close>

definition cached_system :: learning_system where
  "cached_system =
     \<lparr>stockfish = Some only_e4_engine,
      positions_cache =
        [get_position_hash (kppk_position 78) \<mapsto>
           \<lparr>ce_fen = fen (kppk_position 78), ce_evaluation = 0.3,
            ce_best_moves = [(''e4'', 0.3), (''d4'', 0.2)]\<rparr>],
      mistakes_database = Map.empty,
      position_analyses_table = Map.empty, mistakes_table = [], engine_queries = []\<rparr>"

definition no_draws :: draws where
  "no_draws = \<lparr>book_draw = 0.5, uniform_draw = 0.5, choice_draw = 0\<rparr>"

text \<open>The draws that are all 0.\<close>

definition zero_draws :: draws where
  "zero_draws = \<lparr>book_draw = 0, uniform_draw = 0, choice_draw = 0\<rparr>"

section \<open>Time and depth budgets\<close>

text \<open>
  C7. For every classification tag and every feature vector holding a
  \<open>position_complexity\<close> value \<open>c\<close>, the time budget is 2.0 seconds times 1.5 when
  \<open>c \<ge> 0.7\<close>, times 2.0 when the tag is Critical, times 0.7 when the tag is Endgame, and
  the depth budget is 20 plies plus 10 when \<open>c \<ge> 0.7\<close>, plus 15 when Critical, plus 5
  when Endgame.
\<close>

theorem budget_allocation:
  assumes "fs ''position_complexity'' = Some c"
  shows "calculate_time_allocation t fs =
           Inr (2.0 * (if c \<ge> 0.7 then 1.5 else 1) * (if t = CRITICAL then 2.0 else 1)
                 * (if t = ENDGAME then 0.7 else 1))
       \<and> calculate_depth_allocation t fs =
           Inr (20 + (if c \<ge> 0.7 then 10 else 0) + (if t = CRITICAL then 15 else 0)
                 + (if t = ENDGAME then 5 else 0))"
  using assms
  by (simp add: calculate_time_allocation_def calculate_depth_allocation_def item_ge_def
      getitem_def bind_result_def)

theorem budget_allocation_witness:
  "calculate_time_allocation CRITICAL [''position_complexity'' \<mapsto> 0.75] = Inr 6
   \<and> calculate_depth_allocation CRITICAL [''position_complexity'' \<mapsto> 0.75] = Inr 45
   \<and> calculate_time_allocation ENDGAME [''position_complexity'' \<mapsto> 0.2] = Inr 1.4
   \<and> calculate_depth_allocation ENDGAME [''position_complexity'' \<mapsto> 0.2] = Inr 25"
  using budget_allocation [of "[''position_complexity'' \<mapsto> 0.75]" "0.75" CRITICAL]
    budget_allocation [of "[''position_complexity'' \<mapsto> 0.2]" "0.2" ENDGAME]
  by simp

section \<open>Classification\<close>

lemma item_Some:
  "fs k = Some v \<Longrightarrow> item_ge fs k c = Inr (v \<ge> c) \<and> item_le fs k c = Inr (v \<le> c)"
  by (simp add: item_ge_def item_le_def getitem_def bind_result_def)

text \<open>
  C6, as stated, fails: the tag is not a function of the canonical serialization. The
  same FEN on a board with an empty move stack (a board set up from the FEN) and on a
  board with 78 moves on its stack (the game played from the start) gives Opening and
  Endgame.
\<close>

theorem classify_same_fen_counterexample:
  "fen (kppk_position 0) = fen (kppk_position 78)
   \<and> map_sum id position_type (analyze_position (kppk_position 0)) = Inr OPENING
   \<and> map_sum id position_type (analyze_position (kppk_position 78)) = Inr ENDGAME"
  by code_simp

text \<open>
  C6, amended. For a feature vector holding the seven features the rules read, the tag is
  the first matching rule of the ordered list, it depends on the board only through the
  length of its move stack, and with more than 8 moves played a position satisfying both
  the Endgame rule and the Critical rule is Endgame.
\<close>

theorem classify_rule_order:
  assumes "fs ''piece_count'' = Some pc" and "fs ''pawn_structure'' = Some ps"
    and "fs ''center_control'' = Some cc" and "fs ''position_complexity'' = Some cx"
    and "fs ''tactical_opportunities'' = Some tac" and "fs ''material_balance'' = Some mb"
    and "fs ''space_control'' = Some sp"
  shows "classify_position b fs =
           Inr (if move_stack_len b \<le> 8 then OPENING
                else if pc \<ge> 0.8 then ENDGAME
                else if ps \<ge> 0.7 \<and> cc \<le> 0.3 \<and> cx \<ge> 0.6 then CLOSED
                else if tac \<ge> 0.7 \<or> mb \<ge> 0.5 then CRITICAL
                else if tac \<ge> 0.5 then TACTICAL
                else if ps \<ge> 0.6 \<and> sp \<ge> 0.5 then STRATEGIC
                else if cx \<ge> 0.7 then COMPLEX
                else if cc \<ge> 0.5 then OPEN
                else SIMPLE)
         \<and> (move_stack_len b > 8 \<and> pc \<ge> 0.8 \<and> (tac \<ge> 0.7 \<or> mb \<ge> 0.5)
              \<longrightarrow> classify_position b fs = Inr ENDGAME)
         \<and> (move_stack_len b' = move_stack_len b
              \<longrightarrow> classify_position b' fs = classify_position b fs)"
  using assms
  by (simp add: classify_position_def item_Some bind_result_def and_also_def or_else_def)

theorem classify_rule_order_witness:
  "classify_position (kppk_position 78) endgame_and_critical = Inr ENDGAME
   \<and> classify_position (e3_Nf3_position 0) endgame_and_critical
       = classify_position (kppk_position 3) endgame_and_critical"
  using classify_rule_order [where b = "kppk_position 78" and b' = "kppk_position 78"
      and fs = endgame_and_critical
      and pc = "0.875" and ps = 0 and cc = 0 and cx = "0.1" and tac = "0.8" and mb = "0.6"
      and sp = 0]
    classify_rule_order [where b = "kppk_position 3" and b' = "e3_Nf3_position 0"
      and fs = endgame_and_critical
      and pc = "0.875" and ps = 0 and cc = 0 and cx = "0.1" and tac = "0.8" and mb = "0.6"
      and sp = 0]
  by (simp add: kppk_position_def e3_Nf3_position_def board_of_def endgame_and_critical_def)

section \<open>The mistake ledger\<close>

text \<open>
  C3. For every position hash and every non-empty ranked candidate list, the mistake
  filter returns a non-empty list, and when every candidate is flagged for the hash it
  returns the original list.
\<close>

theorem filter_never_empty:
  assumes "best_moves \<noteq> []"
  shows "filter_candidates mdb h best_moves \<noteq> []
         \<and> ((\<forall>c \<in> set best_moves. flagged mdb h (fst c))
              \<longrightarrow> filter_candidates mdb h best_moves = best_moves)"
  using assms
  by (auto simp: filter_candidates_def flagged_def Let_def filter_empty_conv split: option.splits)

theorem filter_never_empty_witness:
  "[(''e4'', 0.1 :: real)] \<noteq> []
   \<and> flagged (mistakes_database (flagged_e4_system only_e4_engine))
        (get_position_hash (kppk_position 78)) ''e4''
   \<and> filter_candidates (mistakes_database (flagged_e4_system only_e4_engine))
        (get_position_hash (kppk_position 78)) [(''e4'', 0.1)] = [(''e4'', 0.1)]"
  using filter_never_empty [where best_moves = "[(''e4'', 0.1)]"
      and mdb = "mistakes_database (flagged_e4_system only_e4_engine)"
      and h = "get_position_hash (kppk_position 78)"]
  by (simp add: flagged_e4_system_def flagged_def)

text \<open>
  C5. \<open>record_mistake\<close> appends, under the hash of the board, a record whose class
  follows the difference \<open>best_eval - move_eval\<close> as the program computes it: blunder
  iff it is above 2.0, mistake iff it is in \<open>(1.0, 2.0]\<close>, inaccuracy iff it is in
  \<open>(0.5, 1.0]\<close>, minor otherwise. After recording e4 (0.1) against the best move d4 (1.3)
  the computed difference is in \<open>(1.0, 2.0]\<close>, the stored class is mistake, and filtering
  the candidates e4, d4 for that hash leaves d4 alone (d4 not being flagged before).
\<close>

theorem record_mistake_class:
  "(case mistakes_database (record_mistake st b mv me bmv be) (get_position_hash b) of
      None \<Rightarrow> False
    | Some ms \<Rightarrow>
        ms \<noteq> [] \<and> move_played (last ms) = san b mv \<and> best_move (last ms) = san b bmv
        \<and> (mistake_type (last ms) = ''blunder'' \<longleftrightarrow> float_sub be me > 2.0)
        \<and> (mistake_type (last ms) = ''mistake''
             \<longleftrightarrow> 1.0 < float_sub be me \<and> float_sub be me \<le> 2.0)
        \<and> (mistake_type (last ms) = ''inaccuracy''
             \<longleftrightarrow> 0.5 < float_sub be me \<and> float_sub be me \<le> 1.0)
        \<and> (mistake_type (last ms) = ''minor'' \<longleftrightarrow> float_sub be me \<le> 0.5))
   \<and> 1.0 < float_sub (double_round 1.3) (double_round 0.1)
   \<and> float_sub (double_round 1.3) (double_round 0.1) \<le> 2.0
   \<and> (san b mv = ''e4'' \<and> san b bmv = ''d4''
          \<and> \<not> flagged (mistakes_database st) (get_position_hash b) ''d4''
        \<longrightarrow> (case mistakes_database
                     (record_mistake st b mv (double_round 0.1) bmv (double_round 1.3))
                     (get_position_hash b) of
               None \<Rightarrow> False
             | Some ms \<Rightarrow> ms \<noteq> [] \<and> mistake_type (last ms) = ''mistake'')
          \<and> filter_candidates
                (mistakes_database
                   (record_mistake st b mv (double_round 0.1) bmv (double_round 1.3)))
                (get_position_hash b) [(''e4'', double_round 0.1), (''d4'', double_round 1.3)]
              = [(''d4'', double_round 1.3)])"
proof -
  have diff: "float_sub (double_round 1.3) (double_round 0.1)
      = 5404319552844595 / 4503599627370496"
    by code_simp
  show ?thesis
    unfolding diff
    by (auto simp: record_mistake_def classify_mistake_def Let_def flagged_def
        filter_candidates_def diff split: option.splits)
qed

lemma kppk_san:
  "san (kppk_position 78) (Move 12 28 None) = ''e4''"
  "san (kppk_position 78) (Move 11 27 None) = ''d4''"
  by code_simp+

lemma rounded_differences:
  "float_sub (double_round 1.1) (double_round 0.6) = 4503599627370497 / 9007199254740992"
  "float_sub (double_round (- 1.99)) (double_round (- 3.99)) = 2"
  by code_simp+

text \<open>
  The witness records e4 against d4 on the king-and-two-pawns position, and reads the
  class stored for two more pairs of evaluations: 0.6 against 1.1, whose computed
  difference is just above 0.5, and -3.99 against -1.99, whose computed difference is
  2.0 exactly.
\<close>

theorem record_mistake_class_witness:
  "(case mistakes_database
           (record_mistake empty_system (kppk_position 78) (Move 12 28 None)
              (double_round 0.1) (Move 11 27 None) (double_round 1.3))
           (get_position_hash (kppk_position 78)) of
      None \<Rightarrow> False
    | Some ms \<Rightarrow> ms \<noteq> [] \<and> mistake_type (last ms) = ''mistake'')
   \<and> filter_candidates
        (mistakes_database
           (record_mistake empty_system (kppk_position 78) (Move 12 28 None)
              (double_round 0.1) (Move 11 27 None) (double_round 1.3)))
        (get_position_hash (kppk_position 78))
        [(''e4'', double_round 0.1), (''d4'', double_round 1.3)]
      = [(''d4'', double_round 1.3)]
   \<and> (case mistakes_database
           (record_mistake empty_system (kppk_position 78) (Move 12 28 None)
              (double_round 0.6) (Move 11 27 None) (double_round 1.1))
           (get_position_hash (kppk_position 78)) of
      None \<Rightarrow> False
    | Some ms \<Rightarrow> mistake_type (last ms) = ''inaccuracy'')
   \<and> (case mistakes_database
           (record_mistake empty_system (kppk_position 78) (Move 12 28 None)
              (double_round (- 3.99)) (Move 11 27 None) (double_round (- 1.99)))
           (get_position_hash (kppk_position 78)) of
      None \<Rightarrow> False
    | Some ms \<Rightarrow> mistake_type (last ms) = ''mistake'')"
  using record_mistake_class [where st = empty_system and b = "kppk_position 78"
      and mv = "Move 12 28 None" and bmv = "Move 11 27 None"
      and me = "double_round 0.6" and be = "double_round 1.1"]
    record_mistake_class [where st = empty_system and b = "kppk_position 78"
      and mv = "Move 12 28 None" and bmv = "Move 11 27 None"
      and me = "double_round (- 3.99)" and be = "double_round (- 1.99)"]
    kppk_san rounded_differences
  by (simp add: flagged_def empty_system_def split: option.splits)

lemma find_filter: "find P xs = Some c \<Longrightarrow> \<exists>ys. filter P xs = c # ys"
  by (induction xs) (auto split: if_splits)

lemma filter_candidates_unflagged:
  assumes "\<exists>c \<in> set bm. \<not> flagged mdb h (fst c)"
  shows "filter_candidates mdb h bm = filter (\<lambda>c. \<not> flagged mdb h (fst c)) bm"
proof (cases "mdb h")
  case None
  then show ?thesis by (simp add: filter_candidates_def flagged_def)
next
  case (Some ms)
  have eq: "filter (\<lambda>(move_san, sc). move_san \<notin> set (map move_played ms)) bm
            = filter (\<lambda>c. \<not> flagged mdb h (fst c)) bm"
    by (rule filter_cong) (auto simp: flagged_def Some)
  from assms have "filter (\<lambda>c. \<not> flagged mdb h (fst c)) bm \<noteq> []"
    by (auto simp: filter_empty_conv)
  with eq Some show ?thesis by (simp add: filter_candidates_def Let_def)
qed

lemma filter_candidates_subseq: "subseq (filter_candidates mdb h bm) bm"
  by (simp add: filter_candidates_def Let_def split: option.splits)

text \<open>
  C10, as stated, fails: when every candidate is flagged the original list is kept, and
  the move returned is a flagged one. Here the engine proposes e4 only, e4 is flagged for
  the position, and e4 is returned.
\<close>

theorem flagged_top_move_counterexample:
  "flagged (mistakes_database (flagged_e4_system only_e4_engine))
     (get_position_hash (kppk_position 78)) ''e4''
   \<and> san (kppk_position 78) (Move 12 28 None) = ''e4''
   \<and> map_sum id fst
        (get_best_move_with_learning (flagged_e4_system only_e4_engine) (kppk_position 78))
       = Inr (Some (Move 12 28 None))"
  by code_simp

text \<open>
  C10, amended. The surviving candidates are a subsequence of the original list, in its
  order; when at least one candidate is not flagged they are exactly the unflagged
  candidates, and the move returned is the highest-ranked unflagged candidate, provided
  its SAN text parses to a move.
\<close>

theorem filter_keeps_ranking:
  "subseq (filter_candidates mdb h bm) bm
   \<and> ((\<exists>c \<in> set bm. \<not> flagged mdb h (fst c))
        \<longrightarrow> filter_candidates mdb h bm = filter (\<lambda>c. \<not> flagged mdb h (fst c)) bm)
   \<and> (deep_position_analysis st b = Inr (a, st')
        \<and> find (\<lambda>c. \<not> flagged (mistakes_database st') (get_position_hash b) (fst c))
              (pa_best_moves a) = Some c
        \<and> parse_san b (fst c) = Some m
        \<longrightarrow> get_best_move_with_learning st b = Inr (Some m, st'))"
proof (intro conjI impI)
  show "subseq (filter_candidates mdb h bm) bm" by (rule filter_candidates_subseq)
next
  assume "\<exists>c \<in> set bm. \<not> flagged mdb h (fst c)"
  then show "filter_candidates mdb h bm = filter (\<lambda>c. \<not> flagged mdb h (fst c)) bm"
    by (rule filter_candidates_unflagged)
next
  let ?h = "get_position_hash b"
  let ?P = "\<lambda>c. \<not> flagged (mistakes_database st') ?h (fst c)"
  assume asm: "deep_position_analysis st b = Inr (a, st') \<and> find ?P (pa_best_moves a) = Some c
      \<and> parse_san b (fst c) = Some m"
  then have fnd: "find ?P (pa_best_moves a) = Some c" by simp
  from find_filter [OF fnd] obtain ys where ys: "filter ?P (pa_best_moves a) = c # ys" ..
  from fnd have "c \<in> set (pa_best_moves a)" "?P c"
    by (auto simp: find_Some_iff)
  then have "filter_candidates (mistakes_database st') ?h (pa_best_moves a) = c # ys"
    using filter_candidates_unflagged [of "pa_best_moves a" "mistakes_database st'" ?h] ys
    by auto
  with asm show "get_best_move_with_learning st b = Inr (Some m, st')"
    by (cases c) (simp add: get_best_move_with_learning_def bind_result_def Let_def)
qed

theorem filter_keeps_ranking_witness:
  "map_sum id fst (get_best_move_with_learning (flagged_e4_system e4_d4_engine) (kppk_position 78))
     = Inr (Some (Move 11 27 None))
   \<and> subseq [(''d4'', 0.2 :: real)] [(''e4'', 0.3), (''d4'', 0.2)]"
proof -
  let ?st = "flagged_e4_system e4_d4_engine"
  let ?b = "kppk_position 78"
  let ?h = "get_position_hash ?b"
  have obs: "map_sum id (\<lambda>(a, st'). (pa_best_moves a, mistakes_database st' ?h))
               (deep_position_analysis ?st ?b)
             = Inr ([(''e4'', 0.3), (''d4'', 0.2)],
                    Some [\<lparr>move_played = ''e4'', best_move = ''d4'', mistake_type = ''mistake'',
                           severity = 0.7\<rparr>])"
    by code_simp
  then obtain a st' where r: "deep_position_analysis ?st ?b = Inr (a, st')"
    and bm: "pa_best_moves a = [(''e4'', 0.3), (''d4'', 0.2)]"
    and db: "mistakes_database st' ?h
             = Some [\<lparr>move_played = ''e4'', best_move = ''d4'', mistake_type = ''mistake'',
                      severity = 0.7\<rparr>]"
    by (cases "deep_position_analysis ?st ?b") auto
  have fnd: "find (\<lambda>c. \<not> flagged (mistakes_database st') ?h (fst c)) (pa_best_moves a)
             = Some (''d4'', 0.2)"
    by (simp add: bm flagged_def db)
  have ps: "parse_san ?b (fst (''d4'', 0.2 :: real)) = Some (Move 11 27 None)"
    by code_simp
  have flt: "filter_candidates (mistakes_database st') ?h (pa_best_moves a) = [(''d4'', 0.2)]"
    using filter_keeps_ranking [where mdb = "mistakes_database st'" and h = ?h
        and bm = "pa_best_moves a"]
    by (simp add: bm flagged_def db)
  from filter_keeps_ranking [where st = ?st and b = ?b and a = a and st' = st'
      and c = "(''d4'', 0.2)" and m = "Move 11 27 None" and mdb = "mistakes_database st'"
      and h = ?h and bm = "pa_best_moves a"] r fnd ps flt bm
  show ?thesis by simp
qed

section \<open>The move sources of the wrapper\<close>

text \<open>
  C9. On a board whose game is over \<open>get_move\<close> returns \<open>None\<close> and queries no
  collaborator: neither tablebase, book nor engine.
\<close>

theorem game_over_no_move:
  "is_game_over b \<Longrightarrow> get_move push w b time_limit d = (None, [])"
  by (simp add: get_move_def)

theorem game_over_no_move_witness:
  "is_game_over stalemate_position
   \<and> engine engine_only_wrapper \<noteq> None
   \<and> get_move (\<lambda>b m. b) engine_only_wrapper stalemate_position None no_draws = (None, [])"
  using game_over_no_move [of stalemate_position "\<lambda>b m. b" engine_only_wrapper None no_draws]
  by (simp add: stalemate_position_def board_of_def engine_only_wrapper_def)

lemma tablebase_fold_keeps:
  "bm \<noteq> None \<Longrightarrow> fst (foldl (tablebase_step push tb b) (bm, bd) ms) \<noteq> None"
  by (induction ms arbitrary: bm bd) (auto simp: tablebase_step_def split: option.splits)

lemma tablebase_fold_finds:
  "\<exists>m \<in> set ms. probe_dtz tb (push b m) \<noteq> None \<Longrightarrow>
   fst (foldl (tablebase_step push tb b) (None, None) ms) \<noteq> None"
proof (induction ms)
  case Nil
  then show ?case by simp
next
  case (Cons m ms)
  show ?case
  proof (cases "probe_dtz tb (push b m)")
    case None
    then have "tablebase_step push tb b (None, None) m = (None, None)"
      by (simp add: tablebase_step_def)
    with None Cons show ?thesis by auto
  next
    case (Some dz)
    then have "tablebase_step push tb b (None, None) m = (Some m, Some dz)"
      by (simp add: tablebase_step_def)
    then show ?thesis
      using tablebase_fold_keeps [of "Some m" push tb b "Some dz" ms] by simp
  qed
qed

lemma tablebase_fold_source:
  "fst (foldl (tablebase_step push tb b) (bm, bd) ms) = Some m' \<Longrightarrow>
   bm = Some m' \<or> (m' \<in> set ms \<and> probe_dtz tb (push b m') \<noteq> None)"
  by (induction ms arbitrary: bm bd)
     (fastforce simp: tablebase_step_def split: option.splits if_splits)+

lemma tablebase_move_exists:
  assumes "tablebase w = Some tb" and "probe_wdl tb b = Some wdl" and "probe_dtz tb b = Some dtz"
    and "\<exists>m \<in> set (legal_moves b). probe_dtz tb (push b m) \<noteq> None"
  shows "\<exists>m \<in> set (legal_moves b).
           get_tablebase_move push w b = Some m \<and> probe_dtz tb (push b m) \<noteq> None"
proof -
  let ?r = "fst (foldl (tablebase_step push tb b) (None, None) (legal_moves b))"
  from tablebase_fold_finds [of "legal_moves b" tb push b] assms(4)
  obtain m where m: "?r = Some m" by auto
  from tablebase_fold_source [OF m] have "m \<in> set (legal_moves b)"
    "probe_dtz tb (push b m) \<noteq> None" by auto
  moreover from assms m have "get_tablebase_move push w b = Some m"
    by (simp add: get_tablebase_move_def)
  ultimately show ?thesis by blast
qed

text \<open>
  C2. On a board whose game is not over, the tablebase is queried when it is loaded and
  the board has at most 6 pieces, then the book when it is loaded, fewer than 15 moves
  are on the stack and the draw is below 0.8, then the engine when there is one; the
  first source that yields a move gives the result, a source is queried only when the
  sources before it yielded none, and the result is \<open>None\<close> when none yields a move. On
  a 3-piece position that the tablebase reports as won, and for which it answers for at
  least one successor, the move returned is a legal move the tablebase answered for, and
  no other source is queried.
\<close>

theorem get_move_priority:
  assumes "\<not> is_game_over b"
  shows "(let tb = (if tablebase w \<noteq> None \<and> piece_map_len b \<le> 6
                    then get_tablebase_move push w b else None);
              bk = (if book w \<noteq> None \<and> move_stack_len b < 15 \<and> book_draw d < 0.8
                    then get_book_move w b d else None);
              en = get_engine_move w b time_limit
          in fst (get_move push w b time_limit d)
               = (if truthy tb then tb else if truthy bk then bk
                  else if truthy en then en else None)
             \<and> snd (get_move push w b time_limit d)
               = (if tablebase w \<noteq> None \<and> piece_map_len b \<le> 6 then [Tablebase] else [])
                 @ (if \<not> truthy tb \<and> book w \<noteq> None \<and> move_stack_len b < 15
                       \<and> book_draw d < 0.8 then [Book] else [])
                 @ (if \<not> truthy tb \<and> \<not> truthy bk \<and> engine w \<noteq> None
                    then [Engine] else []))
       \<and> (tablebase w = Some t \<and> piece_map_len b = 3
            \<and> probe_wdl t b = Some wdl \<and> 0 < wdl \<and> probe_dtz t b = Some dtz
            \<and> (\<exists>m \<in> set (legal_moves b). probe_dtz t (push b m) \<noteq> None)
            \<and> (\<forall>m \<in> set (legal_moves b). move_bool m)
          \<longrightarrow> (\<exists>m \<in> set (legal_moves b).
                 probe_dtz t (push b m) \<noteq> None
                 \<and> get_move push w b time_limit d = (Some m, [Tablebase])))"
proof (intro conjI impI)
  have eng: "engine w = None \<Longrightarrow> get_engine_move w b time_limit = None"
    by (simp add: get_engine_move_def)
  show "let tb = (if tablebase w \<noteq> None \<and> piece_map_len b \<le> 6
                    then get_tablebase_move push w b else None);
              bk = (if book w \<noteq> None \<and> move_stack_len b < 15 \<and> book_draw d < 0.8
                    then get_book_move w b d else None);
              en = get_engine_move w b time_limit
          in fst (get_move push w b time_limit d)
               = (if truthy tb then tb else if truthy bk then bk
                  else if truthy en then en else None)
             \<and> snd (get_move push w b time_limit d)
               = (if tablebase w \<noteq> None \<and> piece_map_len b \<le> 6 then [Tablebase] else [])
                 @ (if \<not> truthy tb \<and> book w \<noteq> None \<and> move_stack_len b < 15
                       \<and> book_draw d < 0.8 then [Book] else [])
                 @ (if \<not> truthy tb \<and> \<not> truthy bk \<and> engine w \<noteq> None
                    then [Engine] else [])"
    using assms eng
    by (auto simp: get_move_def Let_def should_use_tablebase_def should_use_book_def
        probe_limit_def max_book_moves_def book_probability_def truthy_def
        split: option.splits)
next
  assume h: "tablebase w = Some t \<and> piece_map_len b = 3
            \<and> probe_wdl t b = Some wdl \<and> 0 < wdl \<and> probe_dtz t b = Some dtz
            \<and> (\<exists>m \<in> set (legal_moves b). probe_dtz t (push b m) \<noteq> None)
            \<and> (\<forall>m \<in> set (legal_moves b). move_bool m)"
  then obtain m where m: "m \<in> set (legal_moves b)" "get_tablebase_move push w b = Some m"
    "probe_dtz t (push b m) \<noteq> None"
    using tablebase_move_exists [of w t b wdl dtz push] by blast
  with h have "truthy (Some m)" by (simp add: truthy_def)
  with assms h m have "get_move push w b time_limit d = (Some m, [Tablebase])"
    by (simp add: get_move_def should_use_tablebase_def probe_limit_def)
  with m show "\<exists>m \<in> set (legal_moves b).
      probe_dtz t (push b m) \<noteq> None
      \<and> get_move push w b time_limit d = (Some m, [Tablebase])"
    by blast
qed

theorem get_move_priority_witness:
  "\<not> is_game_over kqk_position \<and> piece_map_len kqk_position = 3
   \<and> (\<exists>m \<in> set (legal_moves kqk_position).
         get_move relocate full_wrapper kqk_position None no_draws = (Some m, [Tablebase]))
   \<and> \<not> is_game_over (kppk_position 78)
   \<and> fst (get_move relocate full_wrapper (kppk_position 78) None no_draws)
       = Some (Move 12 28 None)
   \<and> snd (get_move relocate full_wrapper (kppk_position 78) None no_draws)
       = [Tablebase, Engine]"
proof -
  have over: "\<not> is_game_over kqk_position" "\<not> is_game_over (kppk_position 78)"
    by (simp_all add: kqk_position_def kppk_position_def board_of_def)
  have n3: "piece_map_len kqk_position = 3" by code_simp
  have n3': "piece_map_len (relocate kqk_position (Move 3 2 None)) = 3" by code_simp
  have legal: "Move 3 2 None \<in> set (legal_moves kqk_position)"
    "\<forall>m \<in> set (legal_moves kqk_position). move_bool m"
    by (simp_all add: kqk_position_def board_of_def kqk_moves_def)
  have tb: "tablebase full_wrapper = Some stub_tablebase" by (simp add: full_wrapper_def)
  have probes: "probe_wdl stub_tablebase kqk_position = Some 2"
    "probe_dtz stub_tablebase kqk_position = Some 9"
    "probe_dtz stub_tablebase (relocate kqk_position (Move 3 2 None)) \<noteq> None"
    using n3 n3' by (simp_all add: stub_tablebase_def kqk_position_def board_of_def)
  have ex: "\<exists>m \<in> set (legal_moves kqk_position).
      probe_dtz stub_tablebase (relocate kqk_position m) \<noteq> None"
    using legal(1) probes(3) by blast
  have "\<exists>m \<in> set (legal_moves kqk_position).
      probe_dtz stub_tablebase (relocate kqk_position m) \<noteq> None
      \<and> get_move relocate full_wrapper kqk_position None no_draws = (Some m, [Tablebase])"
    by (rule get_move_priority [where b = kqk_position and w = full_wrapper
          and push = relocate and t = stub_tablebase and wdl = 2 and dtz = 9
          and time_limit = None and d = no_draws, OF over(1), THEN conjunct2, THEN mp])
       (use n3 legal(2) tb probes(1,2) ex in simp)
  then have first: "\<exists>m \<in> set (legal_moves kqk_position).
      get_move relocate full_wrapper kqk_position None no_draws = (Some m, [Tablebase])"
    by blast
  have n4: "piece_map_len (kppk_position 78) = 4" by code_simp
  have none: "get_tablebase_move relocate full_wrapper (kppk_position 78) = None"
    using n4 by (simp add: get_tablebase_move_def full_wrapper_def stub_tablebase_def)
  have stack: "move_stack_len (kppk_position 78) = 78"
    by (simp add: kppk_position_def board_of_def)
  have eng: "get_engine_move full_wrapper (kppk_position 78) None = Some (Move 12 28 None)"
    "engine full_wrapper \<noteq> None"
    by (simp_all add: get_engine_move_def full_wrapper_def)
  have second: "fst (get_move relocate full_wrapper (kppk_position 78) None no_draws)
        = Some (Move 12 28 None)
      \<and> snd (get_move relocate full_wrapper (kppk_position 78) None no_draws)
        = [Tablebase, Engine]"
    using get_move_priority [where b = "kppk_position 78" and w = full_wrapper
        and push = relocate and time_limit = None and d = no_draws]
      over n4 none stack eng tb
    by (simp add: Let_def truthy_def)
  from over n3 first second show ?thesis by simp
qed

section \<open>The opening book\<close>

lemma find_all_weights:
  "find_all reader b = Inr entries \<Longrightarrow> \<forall>entry \<in> set entries. 0 < weight entry"
  by (auto simp: find_all_def minimum_weight_def split: sum.splits)

lemma weighted_scan_first:
  "\<forall>e \<in> set es. 0 < weight e \<Longrightarrow> es \<noteq> [] \<Longrightarrow>
   r \<le> real (cum + sum_list (map weight es)) \<Longrightarrow>
   \<exists>i < length es. weighted_scan es r cum = Some (move (es ! i))
      \<and> r \<le> real (cum + sum_list (map weight (take (Suc i) es)))
      \<and> (\<forall>j < i. real (cum + sum_list (map weight (take (Suc j) es))) < r)"
proof (induction es arbitrary: cum)
  case Nil
  then show ?case by simp
next
  case (Cons e es)
  show ?case
  proof (cases "r \<le> real (cum + weight e)")
    case True
    then show ?thesis
      by (intro exI [of _ 0]) (simp add: Let_def)
  next
    case False
    then have lt: "real (cum + weight e) < r" by simp
    from Cons.prems have le: "r \<le> real ((cum + weight e) + sum_list (map weight es))"
      by (simp add: add.assoc)
    from lt le have ne: "es \<noteq> []" by auto
    from Cons.prems have pos: "\<forall>e \<in> set es. 0 < weight e" by simp
    from Cons.IH [OF pos ne le] obtain i where i: "i < length es"
      "weighted_scan es r (cum + weight e) = Some (move (es ! i))"
      "r \<le> real (cum + weight e + sum_list (map weight (take (Suc i) es)))"
      "\<forall>j < i. real (cum + weight e + sum_list (map weight (take (Suc j) es))) < r"
      by blast
    have "\<forall>j < Suc i. real (cum + sum_list (map weight (take (Suc j) (e # es)))) < r"
    proof (intro allI impI)
      fix j
      assume "j < Suc i"
      then show "real (cum + sum_list (map weight (take (Suc j) (e # es)))) < r"
        using lt i(4) by (cases j) (simp_all add: add.assoc)
    qed
    with False i show ?thesis
      by (intro exI [of _ "Suc i"]) (simp add: Let_def add.assoc)
  qed
qed

text \<open>
  C8. For every position whose book entries, as \<open>find_all\<close> yields them, are not empty,
  and every draw \<open>r\<close> in \<open>[0, total_weight)\<close>, the move returned is that of the first
  entry whose cumulative weight reaches \<open>r\<close>, and this entry has a positive weight: an
  entry of weight 0 is never selected.
\<close>

theorem book_move_weighted:
  assumes "book w = Some reader" and "find_all reader b = Inr entries" and "entries \<noteq> []"
    and "0 \<le> uniform_draw d" and "uniform_draw d < 1"
  shows "0 \<le> real (sum_list (map weight entries)) * uniform_draw d
       \<and> real (sum_list (map weight entries)) * uniform_draw d
           < real (sum_list (map weight entries))
       \<and> (\<exists>i < length entries.
             get_book_move w b d = Some (move (entries ! i))
             \<and> 0 < weight (entries ! i)
             \<and> real (sum_list (map weight entries)) * uniform_draw d
                 \<le> real (sum_list (map weight (take (Suc i) entries)))
             \<and> (\<forall>j < i. real (sum_list (map weight (take (Suc j) entries)))
                          < real (sum_list (map weight entries)) * uniform_draw d))"
proof -
  let ?total = "sum_list (map weight entries)"
  let ?r = "real ?total * uniform_draw d"
  have pos: "\<forall>e \<in> set entries. 0 < weight e"
    using find_all_weights [OF assms(2)] .
  from assms(3) obtain e0 es where split: "entries = e0 # es" by (cases entries) auto
  with pos have "0 < weight e0" by simp
  with split have total: "0 < ?total" by simp
  then have nz: "?total \<noteq> 0" by linarith
  from assms(4) have r0: "0 \<le> ?r" by simp
  from total assms(5) have r1: "?r < real ?total" by simp
  then have le: "?r \<le> real (0 + ?total)" by simp
  from weighted_scan_first [OF pos assms(3) le] obtain i where i: "i < length entries"
    "weighted_scan entries ?r 0 = Some (move (entries ! i))"
    "?r \<le> real (sum_list (map weight (take (Suc i) entries)))"
    "\<forall>j < i. real (sum_list (map weight (take (Suc j) entries))) < ?r"
    by auto
  from assms nz i(2) have "get_book_move w b d = Some (move (entries ! i))"
    by (simp add: get_book_move_def Let_def del: sum_list_eq_0_iff)
  moreover from pos i(1) have "0 < weight (entries ! i)" by simp
  ultimately show ?thesis using r0 r1 i by blast
qed

text \<open>
  The witness: the book stores e6 (weight 0), c6 (weight 3) and d5 (weight 1); with the
  draw 0 and with the draw 0.5 the move returned is c6.
\<close>

theorem book_move_weighted_witness:
  "find_all (\<lambda>b. Inr [\<lparr>move = Move 52 44 None, weight = 0\<rparr>,
                        \<lparr>move = Move 50 42 None, weight = 3\<rparr>,
                        \<lparr>move = Move 51 35 None, weight = 1\<rparr>]) (e3_Nf3_position 0)
     = Inr [\<lparr>move = Move 50 42 None, weight = 3\<rparr>, \<lparr>move = Move 51 35 None, weight = 1\<rparr>]
   \<and> get_book_move full_wrapper (e3_Nf3_position 0) zero_draws = Some (Move 50 42 None)
   \<and> get_book_move full_wrapper (e3_Nf3_position 0) no_draws = Some (Move 50 42 None)"
proof -
  let ?stored = "[\<lparr>move = Move 52 44 None, weight = 0\<rparr>, \<lparr>move = Move 50 42 None, weight = 3\<rparr>,
                  \<lparr>move = Move 51 35 None, weight = 1\<rparr>]"
  let ?es = "[\<lparr>move = Move 50 42 None, weight = 3\<rparr>, \<lparr>move = Move 51 35 None, weight = 1\<rparr>]"
  have fa: "find_all (\<lambda>b. Inr ?stored) (e3_Nf3_position 0) = Inr ?es"
    by (simp add: find_all_def minimum_weight_def)
  have bk: "book full_wrapper = Some (\<lambda>b. Inr ?stored)"
    by (simp add: full_wrapper_def)
  have pick: "get_book_move full_wrapper (e3_Nf3_position 0) d = Some (Move 50 42 None)"
    if d: "0 \<le> uniform_draw d" "uniform_draw d \<le> 1 / 2" for d
  proof -
    from d have d1: "uniform_draw d < 1" by simp
    from book_move_weighted [OF bk fa _ d(1) d1] obtain i where i: "i < length ?es"
      "get_book_move full_wrapper (e3_Nf3_position 0) d = Some (move (?es ! i))"
      "\<forall>j < i. real (sum_list (map weight (take (Suc j) ?es)))
          < real (sum_list (map weight ?es)) * uniform_draw d"
      by auto
    from i(1) have "i = 0 \<or> i = 1" by auto
    moreover have "i \<noteq> 1"
    proof
      assume "i = 1"
      with i(3) have "real (sum_list (map weight (take (Suc 0) ?es)))
          < real (sum_list (map weight ?es)) * uniform_draw d" by simp
      with d(2) show False by simp
    qed
    ultimately have "i = 0" by simp
    with i(2) show ?thesis by simp
  qed
  have "get_book_move full_wrapper (e3_Nf3_position 0) zero_draws = Some (Move 50 42 None)"
    by (rule pick) (simp_all add: zero_draws_def)
  moreover have "get_book_move full_wrapper (e3_Nf3_position 0) no_draws
      = Some (Move 50 42 None)"
    by (rule pick) (simp_all add: no_draws_def)
  ultimately show ?thesis using fa by simp
qed

section \<open>Position hash and cached analysis\<close>

text \<open>
  C1, as stated, fails: the hash is taken over the whole FEN, which ends with the
  halfmove clock and the fullmove number. The position after 1.Nf3 Nf6 2.e3 and the one
  after 1.e3 Nf6 2.Nf3 have the same placement, side to move, castling rights and
  en-passant rights, and different hashes.
\<close>

theorem hash_counters_counterexample:
  "piece_at (e3_Nf3_position 0) = piece_at (e3_Nf3_position 2)
   \<and> turn (e3_Nf3_position 0) = turn (e3_Nf3_position 2)
   \<and> castling (e3_Nf3_position 0) = castling (e3_Nf3_position 2)
   \<and> ep_square (e3_Nf3_position 0) = ep_square (e3_Nf3_position 2)
   \<and> get_position_hash (e3_Nf3_position 0) = ''80107ed79abb5720ba3d3d763d004f37''
   \<and> get_position_hash (e3_Nf3_position 2) = ''25e2e5ee7ea0ae0cb2c41108f93f7e19''"
proof -
  have "get_position_hash (e3_Nf3_position 0) = ''80107ed79abb5720ba3d3d763d004f37''"
    by code_simp
  moreover have "get_position_hash (e3_Nf3_position 2) = ''25e2e5ee7ea0ae0cb2c41108f93f7e19''"
    by code_simp
  ultimately show ?thesis
    by (simp add: e3_Nf3_position_def board_of_def)
qed

lemma square_in_SQUARES:
  "f \<in> set [0..7] \<Longrightarrow> r \<in> set [0..7] \<Longrightarrow> square f r \<in> set SQUARES"
  by (auto simp: square_def SQUARES_def)

lemma board_fen_cong:
  assumes "\<forall>sq \<in> set SQUARES. piece_at b1 sq = piece_at b2 sq"
  shows "board_fen b1 = board_fen b2"
proof -
  have "map (\<lambda>r. rank_fen (map (\<lambda>f. piece_at b1 (square f r)) [0..7]) 0) (rev [0..7])
      = map (\<lambda>r. rank_fen (map (\<lambda>f. piece_at b2 (square f r)) [0..7]) 0) (rev [0..7])"
  proof (rule map_cong [OF refl])
    fix r :: int
    assume "r \<in> set (rev [0..7])"
    then have r: "r \<in> set [0..7]" by simp
    have "map (\<lambda>f. piece_at b1 (square f r)) [0..7] = map (\<lambda>f. piece_at b2 (square f r)) [0..7]"
      by (rule map_cong [OF refl]) (use assms r square_in_SQUARES in blast)
    then show "rank_fen (map (\<lambda>f. piece_at b1 (square f r)) [0..7]) 0
        = rank_fen (map (\<lambda>f. piece_at b2 (square f r)) [0..7]) 0"
      by (simp only:)
  qed
  then show ?thesis unfolding board_fen_def by (simp only:)
qed

lemma pieces_occupied: "sq \<in> set (pieces b pt c) \<Longrightarrow> piece_at b sq \<noteq> None"
  by (auto simp: pieces_def)

lemma strategic_pawn_step_total:
  "piece_at b sq \<noteq> None \<Longrightarrow> \<exists>y. strategic_pawn_step b (Inr x) sq = Inr y"
  by (auto simp: strategic_pawn_step_def bind_result_def is_isolated_pawn_def
      is_doubled_pawn_def Let_def)

lemma strategic_pawn_fold_total:
  "\<forall>sq \<in> set sqs. piece_at b sq \<noteq> None \<Longrightarrow>
   \<exists>y. foldl (strategic_pawn_step b) (Inr x) sqs = Inr y"
proof (induction sqs arbitrary: x)
  case Nil
  then show ?case by simp
next
  case (Cons sq sqs)
  then obtain y where "strategic_pawn_step b (Inr x) sq = Inr y"
    using strategic_pawn_step_total [of b sq x] by auto
  with Cons show ?case by simp
qed

lemma strategic_complexity_total: "\<exists>y. calculate_strategic_complexity b = Inr y"
proof -
  obtain y1 where y1: "foldl (strategic_pawn_step b) (Inr 0.0) (pieces b PAWN WHITE) = Inr y1"
    using strategic_pawn_fold_total [of "pieces b PAWN WHITE" b "0.0"] pieces_occupied
    by blast
  obtain y2 where y2: "foldl (strategic_pawn_step b) (Inr y1) (pieces b PAWN BLACK) = Inr y2"
    using strategic_pawn_fold_total [of "pieces b PAWN BLACK" b y1] pieces_occupied
    by blast
  from y1 y2 show ?thesis
    by (simp add: calculate_strategic_complexity_def bind_result_def Let_def)
qed

text \<open>
  C1, amended. Two boards with the same placement, side to move, castling rights,
  en-passant square, halfmove clock and fullmove number have the same hash. An analysis
  of a position whose hash is in the cache returns the cached evaluation and ranked moves
  and leaves the system as it was: the engine is not queried. An analysis of a position
  whose hash is not cached, answered by the engine, queries the engine once and stores
  its evaluation and ranked moves under the hash.
\<close>

theorem hash_and_cache:
  "((\<forall>sq \<in> set SQUARES. piece_at b1 sq = piece_at b2 sq) \<and> turn b1 = turn b2
      \<and> castling b1 = castling b2 \<and> ep_square b1 = ep_square b2
      \<and> halfmove_clock b1 = halfmove_clock b2 \<and> fullmove_number b1 = fullmove_number b2
     \<longrightarrow> get_position_hash b1 = get_position_hash b2)
   \<and> (positions_cache st (get_position_hash b) = Some cached
     \<longrightarrow> (\<exists>a. deep_position_analysis st b = Inr (a, st)
              \<and> pa_evaluation a = ce_evaluation cached
              \<and> pa_best_moves a = ce_best_moves cached))
   \<and> (positions_cache st (get_position_hash b) = None \<and> stockfish st = Some analyse
        \<and> analyse b analysis_depth analysis_time max_variations = Inr (first # others)
     \<longrightarrow> (\<exists>a st1. deep_position_analysis st b = Inr (a, st1)
              \<and> engine_queries st1 = engine_queries st @ [fen b]
              \<and> positions_cache st1 (get_position_hash b)
                  = Some \<lparr>ce_fen = fen b, ce_evaluation = pa_evaluation a,
                          ce_best_moves = pa_best_moves a\<rparr>))"
proof (intro conjI impI)
  assume h: "(\<forall>sq \<in> set SQUARES. piece_at b1 sq = piece_at b2 sq) \<and> turn b1 = turn b2
      \<and> castling b1 = castling b2 \<and> ep_square b1 = ep_square b2
      \<and> halfmove_clock b1 = halfmove_clock b2 \<and> fullmove_number b1 = fullmove_number b2"
  then have "board_fen b1 = board_fen b2" using board_fen_cong by blast
  with h have "fen b1 = fen b2" by (simp add: fen_def)
  then show "get_position_hash b1 = get_position_hash b2"
    by (simp add: get_position_hash_def)
next
  assume c: "positions_cache st (get_position_hash b) = Some cached"
  obtain y where y: "calculate_strategic_complexity b = Inr y"
    using strategic_complexity_total by blast
  with c show "\<exists>a. deep_position_analysis st b = Inr (a, st)
              \<and> pa_evaluation a = ce_evaluation cached
              \<and> pa_best_moves a = ce_best_moves cached"
    by (simp add: deep_position_analysis_def bind_result_def Let_def)
next
  assume e: "positions_cache st (get_position_hash b) = None \<and> stockfish st = Some analyse
        \<and> analyse b analysis_depth analysis_time max_variations = Inr (first # others)"
  obtain y where y: "calculate_strategic_complexity b = Inr y"
    using strategic_complexity_total by blast
  with e show "\<exists>a st1. deep_position_analysis st b = Inr (a, st1)
              \<and> engine_queries st1 = engine_queries st @ [fen b]
              \<and> positions_cache st1 (get_position_hash b)
                  = Some \<lparr>ce_fen = fen b, ce_evaluation = pa_evaluation a,
                          ce_best_moves = pa_best_moves a\<rparr>"
    by (simp add: deep_position_analysis_def save_position_analysis_def Let_def)
qed

theorem hash_and_cache_witness:
  "get_position_hash (kppk_position 0) = get_position_hash (kppk_position 78)
   \<and> map_sum id (\<lambda>(a, st'). (pa_evaluation a, pa_best_moves a, engine_queries st'))
        (deep_position_analysis cached_system (kppk_position 0))
       = Inr (0.3, [(''e4'', 0.3), (''d4'', 0.2)], [])
   \<and> (\<exists>a st1. deep_position_analysis (flagged_e4_system e4_d4_engine) (kppk_position 78)
                 = Inr (a, st1)
          \<and> engine_queries st1 = [fen (kppk_position 78)]
          \<and> positions_cache st1 (get_position_hash (kppk_position 78))
              = Some \<lparr>ce_fen = fen (kppk_position 78), ce_evaluation = pa_evaluation a,
                      ce_best_moves = pa_best_moves a\<rparr>)"
proof -
  have fresh: "\<exists>a st1. deep_position_analysis (flagged_e4_system e4_d4_engine) (kppk_position 78)
                 = Inr (a, st1)
          \<and> engine_queries st1 = [fen (kppk_position 78)]
          \<and> positions_cache st1 (get_position_hash (kppk_position 78))
              = Some \<lparr>ce_fen = fen (kppk_position 78), ce_evaluation = pa_evaluation a,
                      ce_best_moves = pa_best_moves a\<rparr>"
    using hash_and_cache [where st = "flagged_e4_system e4_d4_engine"
        and b = "kppk_position 78" and analyse = e4_d4_engine
        and first = "\<lparr>pv = [Move 12 28 None], score = 30\<rparr>"
        and others = "[\<lparr>pv = [Move 11 27 None], score = 20\<rparr>]"]
    by (simp add: flagged_e4_system_def e4_d4_engine_def)
  have eq: "get_position_hash (kppk_position 0) = get_position_hash (kppk_position 78)"
    using hash_and_cache [where ?b1.0 = "kppk_position 0" and ?b2.0 = "kppk_position 78"]
    by (simp add: kppk_position_def board_of_def)
  have c: "positions_cache cached_system (get_position_hash (kppk_position 0))
      = Some \<lparr>ce_fen = fen (kppk_position 78), ce_evaluation = 0.3,
              ce_best_moves = [(''e4'', 0.3), (''d4'', 0.2)]\<rparr>"
    by (simp add: eq cached_system_def)
  from hash_and_cache [where st = cached_system and b = "kppk_position 0"
      and cached = "\<lparr>ce_fen = fen (kppk_position 78), ce_evaluation = 0.3,
              ce_best_moves = [(''e4'', 0.3), (''d4'', 0.2)]\<rparr>"] c
  obtain a where "deep_position_analysis cached_system (kppk_position 0)
        = Inr (a, cached_system)"
    "pa_evaluation a = 0.3" "pa_best_moves a = [(''e4'', 0.3), (''d4'', 0.2)]"
    by auto
  with eq fresh show ?thesis by (simp add: cached_system_def)
qed

section \<open>Feature extraction\<close>

text \<open>
  C4. The claim holds for nine of the ten features and fails for \<open>material_balance\<close>:
  the divisor 39 is the material of one side at the start of the game, and promotions
  take the difference beyond it. With five white queens against the bare king the
  feature is \<open>45 / 39\<close>, above 1.
\<close>

theorem material_balance_exceeds_one:
  "piece_map_len queens_position = 7
   \<and> map_sum id (\<lambda>fs. fs ''material_balance'') (extract_features queens_position)
       = Inr (Some (15 / 13))
   \<and> (1 :: real) < 15 / 13"
proof -
  have "piece_map_len queens_position = 7" by code_simp
  moreover have "map_sum id (\<lambda>fs. fs ''material_balance'') (extract_features queens_position)
       = Inr (Some (15 / 13))" by code_simp
  ultimately show ?thesis by simp
qed

lemma foldl_count:
  "foldl (\<lambda>acc sq. if P sq then acc + c else acc) a xs
   = a + (c :: real) * real (length (filter P xs))"
  by (induction xs arbitrary: a) (simp_all add: algebra_simps)

lemma count_le: "real (length (filter P xs)) \<le> real (length xs)"
  by simp

lemma center_control_range:
  "0 \<le> analyze_center_control b \<and> analyze_center_control b \<le> 1"
proof -
  have "real (length (filter (\<lambda>sq. piece_at b sq \<noteq> None) [28, 36, 27, 35])) \<le> 4"
    using count_le [of "\<lambda>sq. piece_at b sq \<noteq> None" "[28, 36, 27, 35]"] by simp
  then show ?thesis
    unfolding analyze_center_control_def foldl_count by simp
qed

lemma space_control_range:
  "0 \<le> analyze_space_control b \<and> analyze_space_control b \<le> 1"
proof -
  have "real (length (filter (\<lambda>sq. piece_at b sq \<noteq> None) center_area)) \<le> 16"
    using count_le [of "\<lambda>sq. piece_at b sq \<noteq> None" center_area]
    by (simp add: center_area_def)
  then show ?thesis
    unfolding analyze_space_control_def foldl_count by simp
qed

lemma development_range: "0 \<le> analyze_development b \<and> analyze_development b \<le> 1"
  by (simp add: analyze_development_def)

lemma king_safety_range: "0 \<le> analyze_king_safety b \<and> analyze_king_safety b \<le> 1"
  by (simp add: analyze_king_safety_def king_safety_step_def Let_def split: option.splits)

lemma tactical_range:
  "0 \<le> analyze_tactical_opportunities b \<and> analyze_tactical_opportunities b \<le> 1"
  unfolding analyze_tactical_opportunities_def Let_def foldl_count by simp

lemma complexity_range: "0 \<le> analyze_complexity b \<and> analyze_complexity b \<le> 1"
proof -
  have "foldl (\<lambda>acc sq. if piece_at b sq \<noteq> None then acc + 1 else acc) (0.0 :: real) SQUARES
      = real (length (filter (\<lambda>sq. piece_at b sq \<noteq> None) SQUARES))"
    using foldl_count [of "\<lambda>sq. piece_at b sq \<noteq> None" 1 "0.0" SQUARES] by simp
  then show ?thesis by (simp add: analyze_complexity_def Let_def)
qed

lemma piece_count_range:
  "piece_map_len b \<le> 32 \<Longrightarrow> 0 \<le> analyze_piece_count b \<and> analyze_piece_count b \<le> 1"
  by (simp add: analyze_piece_count_def)

lemma material_balance_nonneg: "0 \<le> analyze_material_balance b"
  by (simp add: analyze_material_balance_def split: prod.splits)

lemma chain_fold_nonneg:
  "(a :: real) \<le> foldl (\<lambda>chains sq. chains + real (get_pawn_chain_length b sq c) / 8.0) a sqs"
proof (induction sqs arbitrary: a)
  case Nil
  then show ?case by simp
next
  case (Cons sq sqs)
  have "a \<le> a + real (get_pawn_chain_length b sq c) / 8.0" by simp
  also have "\<dots> \<le> foldl (\<lambda>chains sq. chains + real (get_pawn_chain_length b sq c) / 8.0)
      (a + real (get_pawn_chain_length b sq c) / 8.0) sqs"
    by (rule Cons.IH)
  finally show ?case by simp
qed

lemma pawn_chains_range: "0 \<le> analyze_pawn_chains b \<and> analyze_pawn_chains b \<le> 1"
proof -
  let ?w = "foldl (\<lambda>chains sq. chains + real (get_pawn_chain_length b sq WHITE) / 8.0)
      0.0 (pieces b PAWN WHITE)"
  have "0 \<le> ?w" using chain_fold_nonneg [of "0.0" b WHITE] by simp
  also have "?w \<le> foldl (\<lambda>chains sq. chains + real (get_pawn_chain_length b sq BLACK) / 8.0)
      ?w (pieces b PAWN BLACK)"
    by (rule chain_fold_nonneg)
  finally show ?thesis by (simp add: analyze_pawn_chains_def)
qed

lemma pawn_structure_step_total:
  "piece_at b sq \<noteq> None \<Longrightarrow> \<exists>y. pawn_structure_step b (Inr x) sq = Inr y \<and> x \<le> y"
  by (auto simp: pawn_structure_step_def bind_result_def is_isolated_pawn_def Let_def)

lemma pawn_structure_fold_total:
  "\<forall>sq \<in> set sqs. piece_at b sq \<noteq> None \<Longrightarrow>
   \<exists>y. foldl (pawn_structure_step b) (Inr x) sqs = Inr y \<and> x \<le> y"
proof (induction sqs arbitrary: x)
  case Nil
  then show ?case by simp
next
  case (Cons sq sqs)
  then obtain y where y: "pawn_structure_step b (Inr x) sq = Inr y" "x \<le> y"
    using pawn_structure_step_total [of b sq x] by auto
  from Cons obtain z where "foldl (pawn_structure_step b) (Inr y) sqs = Inr z" "y \<le> z"
    by fastforce
  with y show ?case by auto
qed

lemma all_pawns_occupied: "sq \<in> set (all_pawns b) \<Longrightarrow> piece_at b sq \<noteq> None"
  by (auto simp: all_pawns_def pieces_def)

lemma pawn_structure_range:
  "\<exists>v. analyze_pawn_structure b = Inr v \<and> 0 \<le> v \<and> v \<le> 1"
proof -
  obtain y where "foldl (pawn_structure_step b) (Inr 0.0) (all_pawns b) = Inr y" "0.0 \<le> y"
    using pawn_structure_fold_total [of "all_pawns b" b "0.0"] all_pawns_occupied by blast
  then show ?thesis by (simp add: analyze_pawn_structure_def bind_result_def)
qed

text \<open>
  What holds of the extraction on every board with at most 32 pieces: it does not raise,
  it returns exactly the ten keys of the schema, nine of the features lie in \<open>[0, 1]\<close>,
  and \<open>material_balance\<close> is not negative. Without pawns the two pawn features are 0.
\<close>

lemma extract_features_range:
  assumes "piece_map_len b \<le> 32"
  shows "\<exists>fs. extract_features b = Inr fs
     \<and> dom fs = {''piece_count'', ''pawn_structure'', ''center_control'', ''development'',
                 ''king_safety'', ''tactical_opportunities'', ''position_complexity'',
                 ''material_balance'', ''space_control'', ''pawn_chain_structure''}
     \<and> (\<forall>k \<in> {''piece_count'', ''pawn_structure'', ''center_control'', ''development'',
                ''king_safety'', ''tactical_opportunities'', ''position_complexity'',
                ''space_control'', ''pawn_chain_structure''}.
          \<exists>v. fs k = Some v \<and> 0 \<le> v \<and> v \<le> 1)
     \<and> (\<exists>v. fs ''material_balance'' = Some v \<and> 0 \<le> v)"
proof -
  obtain ps where ps: "analyze_pawn_structure b = Inr ps" "0 \<le> ps" "ps \<le> 1"
    using pawn_structure_range by blast
  show ?thesis
    using ps piece_count_range [OF assms] center_control_range [of b] development_range [of b]
      king_safety_range [of b] tactical_range [of b] complexity_range [of b]
      material_balance_nonneg [of b] space_control_range [of b] pawn_chains_range [of b]
    by (auto simp: extract_features_def bind_result_def Let_def)
qed

lemma no_pawns_features:
  assumes "pieces b PAWN WHITE = []" and "pieces b PAWN BLACK = []"
  shows "map_sum id (\<lambda>fs. (fs ''pawn_structure'', fs ''pawn_chain_structure''))
           (extract_features b) = Inr (Some 0, Some 0)"
  using assms
  by (simp add: extract_features_def bind_result_def Let_def analyze_pawn_structure_def
      all_pawns_def analyze_pawn_chains_def)

end
